theory Spec2Isabelle
  imports Main
begin

section \<open>Python values\<close>

text \<open>
  A Python \<^verbatim>\<open>str\<close> is a sequence of Unicode code points, so it is modelled as a list of
  natural numbers; \<open>py ''abc''\<close> is the string of an ASCII literal. Non-ASCII literals of the
  source are written as their code points in hexadecimal.
\<close>

type_synonym pystr = "nat list"

abbreviation py :: "string \<Rightarrow> pystr" where
  "py s \<equiv> map of_char s"

text \<open>\<^verbatim>\<open>str.isspace\<close> for one code point: the code points Python treats as whitespace.\<close>

definition str_isspace :: "nat \<Rightarrow> bool" where
  "str_isspace c \<longleftrightarrow>
     (9 \<le> c \<and> c \<le> 13) \<or> (28 \<le> c \<and> c \<le> 32) \<or> c = 0x85 \<or> c = 0xA0 \<or> c = 0x1680 \<or>
     (0x2000 \<le> c \<and> c \<le> 0x200A) \<or> c = 0x2028 \<or> c = 0x2029 \<or> c = 0x202F \<or>
     c = 0x205F \<or> c = 0x3000"

text \<open>\<^verbatim>\<open>s.strip()\<close>: whitespace removed at both ends.\<close>

definition str_strip :: "pystr \<Rightarrow> pystr" where
  "str_strip s = rev (dropWhile str_isspace (rev (dropWhile str_isspace s)))"

text \<open>\<^verbatim>\<open>sep.join(parts)\<close>.\<close>

fun str_join :: "pystr \<Rightarrow> pystr list \<Rightarrow> pystr" where
  "str_join sep [] = []"
| "str_join sep [x] = x"
| "str_join sep (x # y # ys) = x @ sep @ str_join sep (y # ys)"

text \<open>\<^verbatim>\<open>s.startswith(p)\<close> and the substring test \<^verbatim>\<open>sub in s\<close>.\<close>

fun str_startswith :: "pystr \<Rightarrow> pystr \<Rightarrow> bool" where
  "str_startswith s [] = True"
| "str_startswith [] (p # ps) = False"
| "str_startswith (c # s) (p # ps) = (c = p \<and> str_startswith s ps)"

fun str_contains :: "pystr \<Rightarrow> pystr \<Rightarrow> bool" where
  "str_contains sub [] = (sub = [])"
| "str_contains sub (c # s) = (str_startswith (c # s) sub \<or> str_contains sub s)"

text \<open>
  \<^verbatim>\<open>s.lower()\<close> on the ASCII letters. The source only compares the lowered suffix with
  \<^verbatim>\<open>.txt\<close>, \<^verbatim>\<open>.md\<close>, \<^verbatim>\<open>.pdf\<close> and \<^verbatim>\<open>.docx\<close>, and no code point outside ASCII lowers to one of
  the letters of these four.
\<close>

definition str_lower :: "pystr \<Rightarrow> pystr" where
  "str_lower s = map (\<lambda>c. if 65 \<le> c \<and> c \<le> 90 then c + 32 else c) s"

text \<open>\<^verbatim>\<open>str(i)\<close> of an integer: decimal digits, with a minus sign when negative.\<close>

fun digits :: "nat \<Rightarrow> pystr" where
  "digits n = (if n < 10 then [48 + n] else digits (n div 10) @ [48 + n mod 10])"

declare digits.simps [simp del]

definition str_int :: "int \<Rightarrow> pystr" where
  "str_int i = (if i < 0 then 45 # digits (nat (- i)) else digits (nat i))"

text \<open>The values a metadata dictionary holds, and \<^verbatim>\<open>str(v)\<close> as an f-string formats them.\<close>

datatype pyval = PyStr pystr | PyInt int

fun py_str :: "pyval \<Rightarrow> pystr" where
  "py_str (PyStr s) = s"
| "py_str (PyInt i) = str_int i"

type_synonym pydict = "pystr \<rightharpoonup> pyval"

text \<open>\<^verbatim>\<open>d.get(key, default)\<close>.\<close>

definition dict_get :: "pydict \<Rightarrow> pystr \<Rightarrow> pyval \<Rightarrow> pyval" where
  "dict_get d k dflt = (case d k of None \<Rightarrow> dflt | Some v \<Rightarrow> v)"

text \<open>
  The exceptions the two modules raise or let through. \<open>ResponseError\<close> is the generation
  client's error, with what \<^verbatim>\<open>getattr(exc, "status_code", None)\<close> and \<^verbatim>\<open>str(exc)\<close> give;
  \<open>OtherException\<close> stands for an exception of any other class.
\<close>

datatype exn =
    RuntimeError pystr
  | NameError pystr
  | ResponseError "int option" pystr
  | IndexError
  | OtherException pystr

section \<open>config.py\<close>

text \<open>The settings are read from the environment, so they are parameters of the model.\<close>

record config =
  COLLECTION_NAME :: pystr
  CHUNK_SIZE :: int
  CHUNK_OVERLAP :: int
  TOP_K :: int

text \<open>The values config.py falls back to when the environment sets none.\<close>

definition default_config :: config where
  "default_config =
     \<lparr>COLLECTION_NAME = py ''edu_assistant'', CHUNK_SIZE = 800, CHUNK_OVERLAP = 200, TOP_K = 4\<rparr>"

section \<open>ingest.py\<close>

subsection \<open>load\_documents\<close>

text \<open>
  A path found by the scan: \<open>fp_rel\<close> is \<^verbatim>\<open>str(file_path.relative_to(BASE_DIR))\<close> and
  \<open>fp_name\<close> is \<^verbatim>\<open>file_path.name\<close>.
\<close>

record file_path =
  fp_rel :: pystr
  fp_name :: pystr

text \<open>
  What the scan asks of the file system (the directory itself is taken to exist, as
  \<^verbatim>\<open>DATA_RAW_DIR.mkdir(parents=True, exist_ok=True)\<close> makes sure): \<open>rglob\<close> answers \<^verbatim>\<open>DATA_RAW_DIR.rglob(ext)\<close> with the
  matching paths in the order the directory walk yields them, and the three readers are
  \<^verbatim>\<open>read_txt\<close>, \<^verbatim>\<open>read_pdf\<close> and \<^verbatim>\<open>read_docx\<close>, which return the text or raise.
\<close>

record filesystem =
  rglob :: "pystr \<Rightarrow> file_path list"
  read_txt :: "file_path \<Rightarrow> exn + pystr"
  read_pdf :: "file_path \<Rightarrow> exn + pystr"
  read_docx :: "file_path \<Rightarrow> exn + pystr"

text \<open>
  \<^verbatim>\<open>Path.suffix\<close>: with \<open>i\<close> the index of the last dot of the name, the suffix is
  \<^verbatim>\<open>name[i:]\<close> when \<^verbatim>\<open>0 < i < len(name) - 1\<close>, and empty otherwise (also when there is no dot).
\<close>

definition path_suffix :: "pystr \<Rightarrow> pystr" where
  "path_suffix nm =
     (if 46 \<notin> set nm then []
      else let i = length nm - length (takeWhile (\<lambda>c. c \<noteq> 46) (rev nm)) - 1
           in if 0 < i \<and> i + 1 < length nm then drop i nm else [])"

type_synonym raw_document = "pystr \<times> pydict"

text \<open>The \<^verbatim>\<open>if\<close>/\<^verbatim>\<open>elif\<close> chain that picks the extractor; \<^verbatim>\<open>text\<close> stays empty when none applies.\<close>

definition extract_text :: "filesystem \<Rightarrow> file_path \<Rightarrow> exn + pystr" where
  "extract_text fs f =
     (let sfx = str_lower (path_suffix (fp_name f)) in
      if sfx = py ''.txt'' \<or> sfx = py ''.md'' then read_txt fs f
      else if sfx = py ''.pdf'' then read_pdf fs f
      else if sfx = py ''.docx'' then read_docx fs f
      else Inr [])"

text \<open>
  The inner loop over the paths of one pattern. An exception of the extractor leaves the
  function at once: there is no handler around the call.
\<close>

fun scan_files :: "filesystem \<Rightarrow> file_path list \<Rightarrow> raw_document list \<Rightarrow> exn + raw_document list" where
  "scan_files fs [] docs = Inr docs"
| "scan_files fs (f # rest) docs =
     (case extract_text fs f of
        Inl e \<Rightarrow> Inl e
      | Inr text \<Rightarrow>
          if str_strip text = [] then scan_files fs rest docs
          else scan_files fs rest
                 (docs @ [(text, [py ''source'' \<mapsto> PyStr (fp_rel f),
                                  py ''filename'' \<mapsto> PyStr (fp_name f)])]))"

text \<open>The outer loop over the four patterns.\<close>

fun scan_exts :: "filesystem \<Rightarrow> pystr list \<Rightarrow> raw_document list \<Rightarrow> exn + raw_document list" where
  "scan_exts fs [] docs = Inr docs"
| "scan_exts fs (ext # exts) docs =
     (case scan_files fs (rglob fs ext) docs of
        Inl e \<Rightarrow> Inl e
      | Inr docs' \<Rightarrow> scan_exts fs exts docs')"

definition patterns :: "pystr list" where
  "patterns = [py ''*.txt'', py ''*.md'', py ''*.pdf'', py ''*.docx'']"

definition load_documents :: "filesystem \<Rightarrow> exn + raw_document list" where
  "load_documents fs = scan_exts fs patterns []"

subsection \<open>build\_chunks\<close>

text \<open>
  The splitter is the library's \<^verbatim>\<open>RecursiveCharacterTextSplitter\<close>: \<open>splitter size overlap\<close>
  is \<^verbatim>\<open>split_text\<close> of the splitter built with these two settings.
\<close>

type_synonym splitter = "int \<Rightarrow> int \<Rightarrow> pystr \<Rightarrow> pystr list"

text \<open>The inner loop: one document's chunks, numbered from 0 by \<^verbatim>\<open>enumerate\<close>.\<close>

fun chunk_document ::
  "pydict \<Rightarrow> (nat \<times> pystr) list \<Rightarrow> pystr list \<times> pydict list \<Rightarrow> pystr list \<times> pydict list" where
  "chunk_document meta [] acc = acc"
| "chunk_document meta ((idx, chunk) # rest) (texts, metadatas) =
     chunk_document meta rest
       (texts @ [chunk], metadatas @ [meta(py ''chunk'' \<mapsto> PyInt (int idx))])"

fun chunk_documents ::
  "(pystr \<Rightarrow> pystr list) \<Rightarrow> raw_document list \<Rightarrow> pystr list \<times> pydict list \<Rightarrow>
   pystr list \<times> pydict list" where
  "chunk_documents split_text [] acc = acc"
| "chunk_documents split_text ((doc_text, meta) # docs) acc =
     chunk_documents split_text docs
       (chunk_document meta (enumerate 0 (split_text doc_text)) acc)"

definition build_chunks :: "config \<Rightarrow> splitter \<Rightarrow> raw_document list \<Rightarrow> pystr list \<times> pydict list" where
  "build_chunks cfg spl docs =
     chunk_documents (spl (CHUNK_SIZE cfg) (CHUNK_OVERLAP cfg)) docs ([], [])"

subsection \<open>The vector store\<close>

text \<open>
  The persistent client is a map from collection names to collections, and a collection a
  map from ids to entries: an upsert under an id that is present replaces its entry. The
  type \<open>'e\<close> is that of the embedding vectors, which the code never inspects.
  \<open>create_fault\<close> says for which \<^verbatim>\<open>metadata\<close> argument \<^verbatim>\<open>get_or_create_collection\<close> raises, and
  what; the source guards that call with a handler, so its failure is a branch here.
\<close>

record 'e entry =
  document :: pystr
  metadata :: pydict
  embedding :: 'e

record 'e collection =
  coll_metadata :: "pydict option"
  entries :: "pystr \<rightharpoonup> 'e entry"

record 'e client =
  collections :: "pystr \<rightharpoonup> 'e collection"
  create_fault :: "pydict option \<Rightarrow> exn option"

text \<open>\<^verbatim>\<open>client.delete_collection(name)\<close> raises when there is no such collection.\<close>

definition delete_collection :: "'e client \<Rightarrow> pystr \<Rightarrow> (exn + unit) \<times> 'e client" where
  "delete_collection c nm =
     (case collections c nm of
        None \<Rightarrow> (Inl (OtherException (py ''Collection does not exist'')), c)
      | Some _ \<Rightarrow> (Inr (), c\<lparr>collections := (collections c)(nm := None)\<rparr>))"

text \<open>
  \<^verbatim>\<open>client.get_or_create_collection(name, metadata)\<close> returns the collection of that name,
  creating an empty one when there is none. The handle it returns is the name.
\<close>

definition get_or_create_collection ::
  "'e client \<Rightarrow> pystr \<Rightarrow> pydict option \<Rightarrow> (exn + pystr) \<times> 'e client" where
  "get_or_create_collection c nm md =
     (case create_fault c md of
        Some e \<Rightarrow> (Inl e, c)
      | None \<Rightarrow>
          (case collections c nm of
             Some _ \<Rightarrow> (Inr nm, c)
           | None \<Rightarrow>
               (Inr nm,
                c\<lparr>collections :=
                    (collections c)(nm \<mapsto> \<lparr>coll_metadata = md, entries = Map.empty\<rparr>)\<rparr>)))"

definition cosine_metadata :: pydict where
  "cosine_metadata = [py ''hnsw:space'' \<mapsto> PyStr (py ''cosine'')]"

subsection \<open>ensure\_collection\<close>

definition ensure_collection :: "config \<Rightarrow> 'e client \<Rightarrow> bool \<Rightarrow> (exn + pystr) \<times> 'e client" where
  "ensure_collection cfg c reset =
     (let c1 = (if reset then snd (delete_collection c (COLLECTION_NAME cfg)) else c) in
      case get_or_create_collection c1 (COLLECTION_NAME cfg) None of
        (Inr h, c2) \<Rightarrow> (Inr h, c2)
      | (Inl _, c2) \<Rightarrow> get_or_create_collection c2 (COLLECTION_NAME cfg) (Some cosine_metadata))"

subsection \<open>upsert\_chunks\<close>

text \<open>The id loop: \<open>md5_hex s\<close> is \<^verbatim>\<open>hashlib.md5(s.encode("utf-8")).hexdigest()\<close>.\<close>

definition raw_id :: "nat \<Rightarrow> pydict \<Rightarrow> pystr" where
  "raw_id idx meta =
     py_str (dict_get meta (py ''source'') (PyStr (py ''unknown''))) @ py ''::'' @
     py_str (dict_get meta (py ''chunk'') (PyInt (int idx))) @ py ''::'' @
     str_int (int idx)"

definition chunk_ids :: "(pystr \<Rightarrow> pystr) \<Rightarrow> pydict list \<Rightarrow> pystr list" where
  "chunk_ids md5_hex metadatas = map (\<lambda>(idx, meta). md5_hex (raw_id idx meta)) (enumerate 0 metadatas)"

text \<open>
  \<^verbatim>\<open>collection.upsert(ids, documents, metadatas, embeddings)\<close>. The store validates the
  batch first: an empty batch, or lists of unequal lengths, raise \<^verbatim>\<open>ValueError\<close> and nothing
  is stored. A valid batch is stored row by row.
\<close>

definition upsert_rows ::
  "pystr list \<Rightarrow> pystr list \<Rightarrow> pydict list \<Rightarrow> 'e list \<Rightarrow> (pystr \<times> 'e entry) list" where
  "upsert_rows ids documents metadatas embeddings =
     map (\<lambda>(i, d, m, e). (i, \<lparr>document = d, metadata = m, embedding = e\<rparr>))
       (zip ids (zip documents (zip metadatas embeddings)))"

definition collection_upsert ::
  "'e client \<Rightarrow> pystr \<Rightarrow> pystr list \<Rightarrow> pystr list \<Rightarrow> pydict list \<Rightarrow> 'e list \<Rightarrow>
   (exn + unit) \<times> 'e client" where
  "collection_upsert c h ids documents metadatas embeddings =
     (case collections c h of
        None \<Rightarrow> (Inl (OtherException (py ''Collection does not exist'')), c)
      | Some col \<Rightarrow>
          if ids \<noteq> [] \<and> length documents = length ids \<and> length metadatas = length ids \<and>
             length embeddings = length ids
          then
            (Inr (),
             c\<lparr>collections := (collections c)(h \<mapsto>
                 col\<lparr>entries :=
                       fold (\<lambda>(i, e) m. m(i \<mapsto> e))
                         (upsert_rows ids documents metadatas embeddings) (entries col)\<rparr>)\<rparr>)
          else (Inl (OtherException (py ''ValueError'')), c))"

text \<open>
  What upsert\_chunks takes from outside: the hash and the embedding function. The
  client is the state of the store under \<^verbatim>\<open>CHROMA_DIR\<close>, which the function opens.
\<close>

record 'e embedder =
  md5_hex :: "pystr \<Rightarrow> pystr"
  embed_fn :: "pystr list \<Rightarrow> 'e list"

definition upsert_chunks ::
  "config \<Rightarrow> 'e embedder \<Rightarrow> pystr list \<Rightarrow> pydict list \<Rightarrow> bool \<Rightarrow> 'e client \<Rightarrow>
   (exn + unit) \<times> 'e client" where
  "upsert_chunks cfg em texts metadatas reset c =
     (case ensure_collection cfg c reset of
        (Inl e, c1) \<Rightarrow> (Inl e, c1)
      | (Inr h, c1) \<Rightarrow>
          collection_upsert c1 h (chunk_ids (md5_hex em) metadatas) texts metadatas
            (embed_fn em texts))"

subsection \<open>main\<close>

text \<open>
  A run of the command line tool with the flag \<open>reset\<close>: the result, the store afterwards
  and the lines printed.
\<close>

definition main ::
  "config \<Rightarrow> filesystem \<Rightarrow> splitter \<Rightarrow> 'e embedder \<Rightarrow> bool \<Rightarrow> 'e client \<Rightarrow>
   (exn + unit) \<times> 'e client \<times> pystr list" where
  "main cfg fs spl em reset c =
     (case load_documents fs of
        Inl e \<Rightarrow> (Inl e, c, [])
      | Inr docs \<Rightarrow>
          if docs = [] then
            (Inr (), c,
             [py ''No documents found in data/raw. Add educational materials and retry.''])
          else
            (case build_chunks cfg spl docs of
               (texts, metas) \<Rightarrow>
                 if texts = [] then (Inr (), c, [py ''No chunks produced.''])
                 else
                   (case upsert_chunks cfg em texts metas reset c of
                      (Inl e, c') \<Rightarrow> (Inl e, c', [])
                    | (Inr _, c') \<Rightarrow>
                        (Inr (), c',
                         [py ''Ingested '' @ str_int (int (length texts)) @
                          py '' educational chunks into collection '' @ [0x27] @
                          COLLECTION_NAME cfg @ [0x27] @ py ''.'']))))"

text \<open>The number of entries stored under the configured collection name.\<close>

definition stored_chunks :: "config \<Rightarrow> 'e client \<Rightarrow> nat" where
  "stored_chunks cfg c =
     (case collections c (COLLECTION_NAME cfg) of
        None \<Rightarrow> 0
      | Some col \<Rightarrow> card (dom (entries col)))"

section \<open>rag\_service.py\<close>

subsection \<open>textwrap.dedent\<close>

text \<open>
  \<^verbatim>\<open>text.split('\n')\<close>: the lines of a text.
\<close>

fun split_lines :: "pystr \<Rightarrow> pystr list" where
  "split_lines [] = [[]]"
| "split_lines (c # s) =
     (if c = 10 then [] # split_lines s
      else (case split_lines s of
              [] \<Rightarrow> [[c]]
            | l # ls \<Rightarrow> (c # l) # ls))"

definition blank :: "nat \<Rightarrow> bool" where
  "blank c \<longleftrightarrow> c = 32 \<or> c = 9"

text \<open>
  The standard library's \<^verbatim>\<open>dedent\<close>, as its two regular expressions define it: a line of
  spaces and tabs only is emptied (\<^verbatim>\<open>^[ \t]+$\<close>); the indents are the leading spaces and tabs
  of the lines that are left non-empty (\<^verbatim>\<open>(^[ \t]*)(?:[^ \t\n])\<close>); the margin loop keeps their
  longest common prefix; a non-empty margin is removed from the start of every line that has
  it.
\<close>

definition whitespace_only :: "pystr \<Rightarrow> bool" where
  "whitespace_only l \<longleftrightarrow> l \<noteq> [] \<and> list_all blank l"

fun common_prefix :: "pystr \<Rightarrow> pystr \<Rightarrow> pystr" where
  "common_prefix (x # xs) (y # ys) = (if x = y then x # common_prefix xs ys else [])"
| "common_prefix xs ys = []"

fun margin_loop :: "pystr option \<Rightarrow> pystr list \<Rightarrow> pystr option" where
  "margin_loop margin [] = margin"
| "margin_loop None (indent # indents) = margin_loop (Some indent) indents"
| "margin_loop (Some margin) (indent # indents) =
     margin_loop
       (Some (if str_startswith indent margin then margin
              else if str_startswith margin indent then indent
              else common_prefix margin indent))
       indents"

definition dedent :: "pystr \<Rightarrow> pystr" where
  "dedent text =
     (let ls = map (\<lambda>l. if whitespace_only l then [] else l) (split_lines text);
          indents = map (takeWhile blank) (filter (\<lambda>l. l \<noteq> []) ls)
      in case margin_loop None indents of
           None \<Rightarrow> str_join [10] ls
         | Some margin \<Rightarrow>
             if margin = [] then str_join [10] ls
             else str_join [10]
                    (map (\<lambda>l. if str_startswith l margin then drop (length margin) l else l) ls))"

subsection \<open>\_build\_prompt\<close>

text \<open>
  The literals of the two templates. \<open>system_template\<close> is the system message as the source
  writes it, with its indentation; \<open>request_label\<close> is the Russian for "User request: ",
  \<open>context_heading\<close> for "Context from the knowledge base:" and \<open>placeholder\<close> for
  "Context not found.".
\<close>

definition indent12 :: pystr where
  "indent12 = py ''            ''"

definition system_template :: pystr where
  "system_template =
     py ''            '' @ [0x422, 0x44B] @ py '' '' @ [0x2014] @ py '' '' @
     [0x43E, 0x43F, 0x44B, 0x442, 0x43D, 0x44B, 0x439] @ py '' '' @
     [0x440, 0x443, 0x441, 0x441, 0x43A, 0x43E, 0x44F, 0x437, 0x44B, 0x447, 0x43D, 0x44B, 0x439] @
     py '' '' @
     [0x43E, 0x431, 0x440, 0x430, 0x437, 0x43E, 0x432, 0x430, 0x442, 0x435, 0x43B, 0x44C, 0x43D, 0x44B, 0x439] @
     py '' '' @ [0x430, 0x441, 0x441, 0x438, 0x441, 0x442, 0x435, 0x43D, 0x442] @ py ''. '' @
     [0x41E, 0x442, 0x432, 0x435, 0x447, 0x430, 0x439] @ py '' '' @
     [0x422, 0x41E, 0x41B, 0x42C, 0x41A, 0x41E] @ py '' '' @ [0x43D, 0x430] @ py '' '' @
     [0x440, 0x443, 0x441, 0x441, 0x43A, 0x43E, 0x43C] @ py '' '' @
     [0x44F, 0x437, 0x44B, 0x43A, 0x435] @ py ''.'' @ [0xA] @
     py ''            '' @ [0xA] @
     py ''            '' @ [0x41F, 0x420, 0x410, 0x412, 0x418, 0x41B, 0x410] @ py '':'' @ [0xA] @
     py ''            1. '' @ [0x418, 0x441, 0x43F, 0x43E, 0x43B, 0x44C, 0x437, 0x443, 0x439] @
     py '' '' @ [0x422, 0x41E, 0x41B, 0x42C, 0x41A, 0x41E] @ py '' '' @
     [0x438, 0x43D, 0x444, 0x43E, 0x440, 0x43C, 0x430, 0x446, 0x438, 0x44E] @ py '' '' @
     [0x438, 0x437] @ py '' '' @
     [0x43A, 0x43E, 0x43D, 0x442, 0x435, 0x43A, 0x441, 0x442, 0x430] @ [0xA] @
     py ''            2. '' @ [0x415, 0x441, 0x43B, 0x438] @ py '' '' @
     [0x438, 0x43D, 0x444, 0x43E, 0x440, 0x43C, 0x430, 0x446, 0x438, 0x438] @ py '' '' @
     [0x43D, 0x435, 0x442] @ py '' '' @ [0x2014] @ py '' '' @
     [0x447, 0x435, 0x441, 0x442, 0x43D, 0x43E] @ py '' '' @
     [0x441, 0x43A, 0x430, 0x436, 0x438] @ py '' '' @ [0x43E, 0x431] @ py '' '' @
     [0x44D, 0x442, 0x43E, 0x43C] @ [0xA] @
     py ''            3. '' @ [0x41D, 0x435] @ py '' '' @
     [0x432, 0x44B, 0x434, 0x443, 0x43C, 0x44B, 0x432, 0x430, 0x439] @ py '' '' @
     [0x444, 0x430, 0x43A, 0x442, 0x44B] @ [0xA] @
     py ''            4. '' @ [0x411, 0x443, 0x434, 0x44C] @ py '' '' @
     [0x434, 0x440, 0x443, 0x436, 0x435, 0x43B, 0x44E, 0x431, 0x43D, 0x44B, 0x43C] @ py '' '' @
     [0x438] @ py '' '' @ [0x43F, 0x43E, 0x43B, 0x435, 0x437, 0x43D, 0x44B, 0x43C] @ [0xA] @
     py ''            5. '' @ [0x41E, 0x442, 0x432, 0x435, 0x447, 0x430, 0x439] @ py '' '' @
     [0x43A, 0x440, 0x430, 0x442, 0x43A, 0x43E] @ py '' '' @ [0x438] @ py '' '' @
     [0x43F, 0x43E] @ py '' '' @ [0x434, 0x435, 0x43B, 0x443] @ py '', '' @
     [0x438, 0x441, 0x43F, 0x43E, 0x43B, 0x44C, 0x437, 0x443, 0x439] @ py '' '' @
     [0x441, 0x43F, 0x438, 0x441, 0x43A, 0x438] @ py '' '' @ [0x438] @ py '' '' @
     [0x44D, 0x43C, 0x43E, 0x434, 0x437, 0x438] @ py '' '' @ [0x434, 0x43B, 0x44F] @ py '' '' @
     [0x441, 0x442, 0x440, 0x443, 0x43A, 0x442, 0x443, 0x440, 0x44B] @ py '', '' @
     [0x434, 0x430, 0x432, 0x430, 0x439] @ py '' '' @
     [0x43F, 0x440, 0x430, 0x43A, 0x442, 0x438, 0x447, 0x43D, 0x44B, 0x435] @ py '' '' @
     [0x441, 0x43E, 0x432, 0x435, 0x442, 0x44B] @ py '', '' @ [0x435, 0x441, 0x43B, 0x438] @
     py '' '' @ [0x43F, 0x440, 0x438, 0x43C, 0x435, 0x43D, 0x438, 0x43C, 0x43E] @ py ''.'' @
     [0xA] @
     py ''            ''"

definition request_label :: pystr where
  "request_label =
     [0x417, 0x430, 0x43F, 0x440, 0x43E, 0x441] @ py '' '' @
     [0x43F, 0x43E, 0x43B, 0x44C, 0x437, 0x43E, 0x432, 0x430, 0x442, 0x435, 0x43B, 0x44F] @
     py '': ''"

definition context_heading :: pystr where
  "context_heading =
     [0x41A, 0x43E, 0x43D, 0x442, 0x435, 0x43A, 0x441, 0x442] @ py '' '' @ [0x438, 0x437] @
     py '' '' @ [0x431, 0x430, 0x437, 0x44B] @ py '' '' @
     [0x437, 0x43D, 0x430, 0x43D, 0x438, 0x439] @ py '':''"

definition placeholder :: pystr where
  "placeholder =
     [0x41A, 0x43E, 0x43D, 0x442, 0x435, 0x43A, 0x441, 0x442] @ py '' '' @ [0x43D, 0x435] @
     py '' '' @ [0x43D, 0x430, 0x439, 0x434, 0x435, 0x43D] @ py ''.''"

text \<open>A retrieved passage: its text, its metadata and its distance, of a type \<open>'d\<close>.\<close>

type_synonym 'd passage = "pystr \<times> pydict \<times> 'd"

text \<open>The loop that tags each passage with its source, in the order of the list.\<close>

definition context_parts :: "'d passage list \<Rightarrow> pystr list" where
  "context_parts docs =
     map (\<lambda>(doc, meta, dist).
            py ''['' @ py_str (dict_get meta (py ''source'') (PyStr (py ''unknown''))) @
            py ''] '' @ doc)
       docs"

text \<open>The user message's f-string, before \<^verbatim>\<open>dedent\<close> and \<^verbatim>\<open>strip\<close>, line by line.\<close>

definition user_template :: "pystr \<Rightarrow> pystr \<Rightarrow> pystr" where
  "user_template question context =
     indent12 @ request_label @ question @ [10] @
     indent12 @ [10] @
     indent12 @ context_heading @ [10] @
     indent12 @ (if context \<noteq> [] then context else placeholder) @ [10] @
     indent12"

definition build_prompt :: "pystr \<Rightarrow> 'd passage list \<Rightarrow> pystr \<times> pystr" where
  "build_prompt question docs =
     (let context = str_join [10, 10] (context_parts docs);
          system_msg = str_strip (dedent system_template);
          user_msg = str_strip (dedent (user_template question context))
      in (system_msg, user_msg))"

subsection \<open>retrieve\<close>

text \<open>
  What the service object holds: the embedding function, the collection's \<^verbatim>\<open>query\<close> and the
  generation client's \<^verbatim>\<open>chat\<close>. Each of the last two takes the number of calls made before,
  since the index or the service may answer differently from one call to the next;
  \<open>rag_chat\<close> takes the system and the user message and returns
  \<^verbatim>\<open>response["message"]["content"]\<close> or raises.
\<close>

record 'd query_result =
  res_documents :: "pystr list list option"
  res_metadatas :: "pydict list list option"
  res_distances :: "'d list list option"

record ('e, 'd) rag_service =
  rag_embed_fn :: "pystr list \<Rightarrow> 'e list"
  rag_query :: "nat \<Rightarrow> 'e \<Rightarrow> int \<Rightarrow> exn + 'd query_result"
  rag_chat :: "nat \<Rightarrow> pystr \<Rightarrow> pystr \<Rightarrow> exn + pystr"

text \<open>
  What a call does to the world: the queries sent to the index, the requests sent to the
  generation service, the seconds slept and the lines logged.
\<close>

datatype level = WARNING | ERROR

record io =
  query_calls :: nat
  chat_calls :: nat
  sleeps :: "nat list"
  logged :: "(level \<times> pystr) list"

text \<open>\<^verbatim>\<open>results.get(key, [[]])[0]\<close>.\<close>

definition first_batch :: "'a list list option \<Rightarrow> exn + 'a list" where
  "first_batch v =
     (case v of
        None \<Rightarrow> Inr []
      | Some [] \<Rightarrow> Inl IndexError
      | Some (x # _) \<Rightarrow> Inr x)"

text \<open>The message of the error raised for a corrupted index: the Russian for "The database is
  corrupted. Delete the folder 'chroma_db' and run:" and the command.\<close>

definition corrupted_message :: pystr where
  "corrupted_message =
     [0x411, 0x430, 0x437, 0x430] @ py '' '' @ [0x434, 0x430, 0x43D, 0x43D, 0x44B, 0x445] @
     py '' '' @ [0x43F, 0x43E, 0x432, 0x440, 0x435, 0x436, 0x434, 0x435, 0x43D, 0x430] @
     py ''. '' @ [0x423, 0x434, 0x430, 0x43B, 0x438, 0x442, 0x435] @ py '' '' @
     [0x43F, 0x430, 0x43F, 0x43A, 0x443] @ py '' '' @ [0x27] @ py ''chroma_db'' @ [0x27] @
     py '' '' @ [0x438] @ py '' '' @
     [0x437, 0x430, 0x43F, 0x443, 0x441, 0x442, 0x438, 0x442, 0x435] @ py '':'' @ [0xA] @
     py ''python ingest.py --reset''"

definition retrieve ::
  "('e, 'd) rag_service \<Rightarrow> pystr \<Rightarrow> int \<Rightarrow> io \<Rightarrow> (exn + 'd passage list) \<times> io" where
  "retrieve rag query top_k s =
     (case rag_embed_fn rag [query] of
        [] \<Rightarrow> (Inl IndexError, s)
      | query_embedding # _ \<Rightarrow>
          (let s1 = s\<lparr>query_calls := query_calls s + 1\<rparr> in
           case rag_query rag (query_calls s) query_embedding top_k of
             Inl (RuntimeError msg) \<Rightarrow>
               if str_contains (py ''Cannot open header file'') msg then
                 (Inl (RuntimeError corrupted_message),
                  s1\<lparr>logged := logged s1 @
                     [(ERROR, py ''ChromaDB index corrupted. Please delete chroma_db folder and run ingest.py --reset'')]\<rparr>)
               else (Inl (RuntimeError msg), s1)
           | Inl e \<Rightarrow> (Inl e, s1)
           | Inr results \<Rightarrow>
               (case first_batch (res_documents results) of
                  Inl e \<Rightarrow> (Inl e, s1)
                | Inr docs \<Rightarrow>
                    (case first_batch (res_metadatas results) of
                       Inl e \<Rightarrow> (Inl e, s1)
                     | Inr metas \<Rightarrow>
                         (case first_batch (res_distances results) of
                            Inl e \<Rightarrow> (Inl e, s1)
                          | Inr distances \<Rightarrow>
                              (Inr (zip docs (zip metas distances)), s1))))))"

subsection \<open>generate\_answer\<close>

text \<open>
  The names the module binds at top level: those of its \<^verbatim>\<open>import\<close> statements and the class.
  A name that is neither local, nor among these, nor a builtin raises \<^verbatim>\<open>NameError\<close> when
  the statement that reads it runs.
\<close>

definition module_names :: "string list" where
  "module_names =
     [''logging'', ''textwrap'', ''List'', ''Tuple'', ''Optional'', ''chromadb'',
      ''embedding_functions'', ''ollama'', ''ResponseError'', ''CHROMA_DIR'',
      ''COLLECTION_NAME'', ''EMBED_MODEL'', ''OLLAMA_BASE_URL'', ''OLLAMA_MODEL'', ''TOP_K'',
      ''RagService'']"

text \<open>The statement \<^verbatim>\<open>time.sleep(wait_time)\<close>.\<close>

definition time_sleep :: "nat \<Rightarrow> io \<Rightarrow> (exn + unit) \<times> io" where
  "time_sleep wait_time s =
     (if ''time'' \<in> set module_names then (Inr (), s\<lparr>sleeps := sleeps s @ [wait_time]\<rparr>)
      else (Inl (NameError (py ''name '' @ [0x27] @ py ''time'' @ [0x27] @ py '' is not defined'')), s))"

text \<open>The message raised when the third attempt is answered 503: the Russian for "The Ollama
  service is overloaded or unavailable (503)." and three things to try.\<close>

definition overloaded_message :: pystr where
  "overloaded_message =
     py ''Ollama '' @ [0x441, 0x435, 0x440, 0x432, 0x438, 0x441] @ py '' '' @
     [0x43F, 0x435, 0x440, 0x435, 0x433, 0x440, 0x443, 0x436, 0x435, 0x43D] @ py '' '' @
     [0x438, 0x43B, 0x438] @ py '' '' @
     [0x43D, 0x435, 0x434, 0x43E, 0x441, 0x442, 0x443, 0x43F, 0x435, 0x43D] @ py '' (503).'' @
     [0xA] @
     [0xA] @
     [0x41F, 0x43E, 0x43F, 0x440, 0x43E, 0x431, 0x443, 0x439, 0x442, 0x435] @ py '':'' @ [0xA] @
     [0x2022] @ py '' '' @ [0x41F, 0x43E, 0x434, 0x43E, 0x436, 0x434, 0x430, 0x442, 0x44C] @
     py '' 10-30 '' @ [0x441, 0x435, 0x43A, 0x443, 0x43D, 0x434] @ py '' '' @ [0x438] @
     py '' '' @ [0x43F, 0x43E, 0x432, 0x442, 0x43E, 0x440, 0x438, 0x442, 0x44C] @ py '' '' @
     [0x437, 0x430, 0x43F, 0x440, 0x43E, 0x441] @ [0xA] @
     [0x2022] @ py '' '' @ [0x41F, 0x440, 0x43E, 0x432, 0x435, 0x440, 0x438, 0x442, 0x44C] @
     py '', '' @ [0x447, 0x442, 0x43E] @ py '' Ollama '' @
     [0x437, 0x430, 0x43F, 0x443, 0x449, 0x435, 0x43D] @ py '': '' @ [0x60] @
     py ''ollama list'' @ [0x60] @ [0xA] @
     [0x2022] @ py '' '' @
     [0x41F, 0x435, 0x440, 0x435, 0x437, 0x430, 0x43F, 0x443, 0x441, 0x442, 0x438, 0x442, 0x44C] @
     py '' Ollama '' @ [0x441, 0x435, 0x440, 0x432, 0x438, 0x441]"

text \<open>\<^verbatim>\<open>f"{status}"\<close> for what \<^verbatim>\<open>getattr(exc, "status_code", None)\<close> gave.\<close>

definition status_str :: "int option \<Rightarrow> pystr" where
  "status_str status = (case status of None \<Rightarrow> py ''None'' | Some n \<Rightarrow> str_int n)"

text \<open>
  The loop \<^verbatim>\<open>for attempt in range(3)\<close>, over the attempt numbers still to come, with
  \<^verbatim>\<open>last_exc\<close>; the empty list is the statement after the loop.
\<close>

fun attempt_loop ::
  "('e, 'd) rag_service \<Rightarrow> pystr \<Rightarrow> pystr \<Rightarrow> nat list \<Rightarrow> exn option \<Rightarrow> io \<Rightarrow>
   (exn + pystr) \<times> io" where
  "attempt_loop rag system_msg user_msg [] last_exc s =
     (Inl (case last_exc of
             Some e \<Rightarrow> e
           | None \<Rightarrow> RuntimeError (py ''Unknown Ollama error'')), s)"
| "attempt_loop rag system_msg user_msg (attempt # rest) last_exc s =
     (let s1 = s\<lparr>chat_calls := chat_calls s + 1\<rparr> in
      case rag_chat rag (chat_calls s) system_msg user_msg of
        Inr answer \<Rightarrow> (Inr answer, s1)
      | Inl (ResponseError status text) \<Rightarrow>
          (let message = (if str_strip text \<noteq> [] then str_strip text
                          else py ''service unavailable'') in
           if status = Some 503 then
             if attempt < 2 then
               (let wait_time = 2 + attempt * 3;
                    s2 = s1\<lparr>logged := logged s1 @
                           [(WARNING, py ''Ollama 503, retry '' @ str_int (int (attempt + 1)) @
                                      py ''/3 after '' @ str_int (int wait_time) @ py ''s'')]\<rparr>
                in case time_sleep wait_time s2 of
                     (Inl e, s3) \<Rightarrow> (Inl e, s3)
                   | (Inr _, s3) \<Rightarrow> attempt_loop rag system_msg user_msg rest last_exc s3)
             else (Inl (RuntimeError overloaded_message), s1)
           else
             (Inl (RuntimeError (py ''Ollama error ('' @ status_str status @ py ''): '' @ message)),
              s1))
      | Inl e \<Rightarrow> (Inl e, s1))"

definition generate_answer ::
  "config \<Rightarrow> ('e, 'd) rag_service \<Rightarrow> pystr \<Rightarrow> io \<Rightarrow> (exn + pystr \<times> 'd passage list) \<times> io" where
  "generate_answer cfg rag question s =
     (case retrieve rag question (TOP_K cfg) s of
        (Inl e, s1) \<Rightarrow> (Inl e, s1)
      | (Inr docs, s1) \<Rightarrow>
          (case build_prompt question docs of
             (system_msg, user_msg) \<Rightarrow>
               (case attempt_loop rag system_msg user_msg [0..<3] None s1 of
                  (Inl e, s2) \<Rightarrow> (Inl e, s2)
                | (Inr answer, s2) \<Rightarrow> (Inr (answer, docs), s2))))"

text \<open>A state in which nothing has happened yet.\<close>

definition io0 :: io where
  "io0 = \<lparr>query_calls = 0, chat_calls = 0, sleeps = [], logged = []\<rparr>"

section \<open>Notions for the properties, and example inputs\<close>

text \<open>
  Three services over an index that returns no passage: one that answers every request
  with status 503, one that answers with status 404, and one whose index cannot be read.
\<close>

definition overloaded_service :: "(nat, nat) rag_service" where
  "overloaded_service =
     \<lparr>rag_embed_fn = (\<lambda>qs. [0]),
      rag_query = (\<lambda>n v k. Inr \<lparr>res_documents = Some [[]], res_metadatas = Some [[]],
                                   res_distances = Some [[]]\<rparr>),
      rag_chat = (\<lambda>n sm um. Inl (ResponseError (Some 503) (py ''overloaded'')))\<rparr>"

definition failing_service :: "(nat, nat) rag_service" where
  "failing_service =
     \<lparr>rag_embed_fn = (\<lambda>qs. [0]),
      rag_query = (\<lambda>n v k. Inr \<lparr>res_documents = Some [[]], res_metadatas = Some [[]],
                                   res_distances = Some [[]]\<rparr>),
      rag_chat = (\<lambda>n sm um. Inl (ResponseError (Some 404) (py ''model not found '')))\<rparr>"

definition corrupted_service :: "(nat, nat) rag_service" where
  "corrupted_service =
     \<lparr>rag_embed_fn = (\<lambda>qs. [0]),
      rag_query = (\<lambda>n v k. Inl (RuntimeError (py ''Cannot open header file''))),
      rag_chat = (\<lambda>n sm um. Inr (py ''answer''))\<rparr>"

subsection \<open>The scan, stated directly\<close>

text \<open>
  The paths the scan visits, in its order; the exception of the first path whose extractor
  raises, if there is one; and the documents of the paths whose text is not blank. They
  state what \<open>load_documents\<close> returns, to be compared with the loops above.
\<close>

definition scanned :: "filesystem \<Rightarrow> file_path list" where
  "scanned fs = concat (map (rglob fs) patterns)"

fun first_error :: "filesystem \<Rightarrow> file_path list \<Rightarrow> exn option" where
  "first_error fs [] = None"
| "first_error fs (f # rest) =
     (case extract_text fs f of Inl e \<Rightarrow> Some e | Inr text \<Rightarrow> first_error fs rest)"

fun kept_documents :: "filesystem \<Rightarrow> file_path list \<Rightarrow> raw_document list" where
  "kept_documents fs [] = []"
| "kept_documents fs (f # rest) =
     (case extract_text fs f of
        Inl e \<Rightarrow> kept_documents fs rest
      | Inr text \<Rightarrow>
          if str_strip text = [] then kept_documents fs rest
          else (text, [py ''source'' \<mapsto> PyStr (fp_rel f), py ''filename'' \<mapsto> PyStr (fp_name f)])
               # kept_documents fs rest)"

subsection \<open>A directory with a corrupt file\<close>

text \<open>A readable text file and a PDF file whose extractor raises.\<close>

definition a_txt :: file_path where
  "a_txt = \<lparr>fp_rel = py ''data/raw/a.txt'', fp_name = py ''a.txt''\<rparr>"

definition b_pdf :: file_path where
  "b_pdf = \<lparr>fp_rel = py ''data/raw/b.pdf'', fp_name = py ''b.pdf''\<rparr>"

definition broken_pdf_fs :: filesystem where
  "broken_pdf_fs =
     \<lparr>rglob = (\<lambda>ext. if ext = py ''*.txt'' then [a_txt]
                     else if ext = py ''*.pdf'' then [b_pdf] else []),
      read_txt = (\<lambda>f. Inr (py ''hello'')),
      read_pdf = (\<lambda>f. Inl (OtherException (py ''EOF marker not found''))),
      read_docx = (\<lambda>f. Inr [])\<rparr>"

subsection \<open>Runs of the ingestion\<close>

text \<open>The store a run of \<open>main\<close> leaves behind.\<close>

definition store_after ::
  "config \<Rightarrow> filesystem \<Rightarrow> splitter \<Rightarrow> 'e embedder \<Rightarrow> bool \<Rightarrow> 'e client \<Rightarrow> 'e client" where
  "store_after cfg fs spl em reset c = fst (snd (main cfg fs spl em reset c))"

text \<open>
  The client with one more collection, empty, under the configured name: what
  \<^verbatim>\<open>get_or_create_collection\<close> leaves when there was none.
\<close>

definition fresh_collection :: "config \<Rightarrow> 'e client \<Rightarrow> pydict option \<Rightarrow> 'e client" where
  "fresh_collection cfg c md =
     c\<lparr>collections :=
         (collections c)(COLLECTION_NAME cfg \<mapsto> \<lparr>coll_metadata = md, entries = Map.empty\<rparr>)\<rparr>"

text \<open>
  A splitter that keeps a text whole, an embedder whose hash is the identity, and an
  empty source directory.
\<close>

definition whole_splitter :: splitter where
  "whole_splitter = (\<lambda>size overlap text. if text = [] then [] else [text])"

definition example_embedder :: "nat embedder" where
  "example_embedder = \<lparr>md5_hex = (\<lambda>s. s), embed_fn = map length\<rparr>"

definition empty_fs :: filesystem where
  "empty_fs =
     \<lparr>rglob = (\<lambda>ext. []), read_txt = (\<lambda>f. Inr []), read_pdf = (\<lambda>f. Inr []),
      read_docx = (\<lambda>f. Inr [])\<rparr>"

text \<open>
  Three stores: one whose collection holds an entry of an earlier run, one with no
  collection, and one with no collection in which every \<^verbatim>\<open>get_or_create_collection\<close>
  raises.
\<close>

definition populated_client :: "nat client" where
  "populated_client =
     \<lparr>collections =
        [py ''edu_assistant'' \<mapsto>
           \<lparr>coll_metadata = None,
            entries = [py ''0cc175b9'' \<mapsto>
                         \<lparr>document = py ''old text'',
                          metadata = [py ''source'' \<mapsto> PyStr (py ''data/raw/old.txt''),
                                      py ''chunk'' \<mapsto> PyInt 0],
                          embedding = 8\<rparr>]\<rparr>],
      create_fault = (\<lambda>md. None)\<rparr>"

definition fresh_client :: "nat client" where
  "fresh_client = \<lparr>collections = Map.empty, create_fault = (\<lambda>md. None)\<rparr>"

definition broken_client :: "nat client" where
  "broken_client =
     \<lparr>collections = Map.empty,
      create_fault = (\<lambda>md. Some (OtherException (py ''disk I/O error'')))\<rparr>"

text \<open>Two metadata lists that differ in the file name only.\<close>

definition metas_a :: "pydict list" where
  "metas_a = [[py ''source'' \<mapsto> PyStr (py ''data/raw/a.txt''),
               py ''filename'' \<mapsto> PyStr (py ''a.txt''), py ''chunk'' \<mapsto> PyInt 0]]"

definition metas_b :: "pydict list" where
  "metas_b = [[py ''source'' \<mapsto> PyStr (py ''data/raw/a.txt''),
               py ''filename'' \<mapsto> PyStr (py ''A.TXT''), py ''chunk'' \<mapsto> PyInt 0]]"

subsection \<open>Reading a prompt\<close>

text \<open>
  A text with its whitespace characters removed, to compare two texts up to whitespace;
  \<^verbatim>\<open>s.endswith(p)\<close>; and a list of one retrieved passage.
\<close>

definition without_whitespace :: "pystr \<Rightarrow> pystr" where
  "without_whitespace s = filter (\<lambda>c. \<not> str_isspace c) s"

definition str_endswith :: "pystr \<Rightarrow> pystr \<Rightarrow> bool" where
  "str_endswith s p = str_startswith (rev s) (rev p)"

definition one_passage :: "nat passage list" where
  "one_passage =
     [(py ''Mitochondria.'', [py ''source'' \<mapsto> PyStr (py ''data/raw/bio.txt'')], 0)]"

text \<open>A list of two retrieved passages, the second without a source.\<close>

definition two_passages :: "nat passage list" where
  "two_passages =
     [(py ''Mitochondria.'', [py ''source'' \<mapsto> PyStr (py ''data/raw/bio.txt'')], 0),
      (py ''Cells.'', Map.empty, 1)]"

subsection \<open>Failures of the index\<close>

text \<open>
  What \<open>retrieve\<close> takes for a corrupted index: a \<^verbatim>\<open>RuntimeError\<close> whose text contains
  \<^verbatim>\<open>Cannot open header file\<close>. And a service whose index cannot be read either, but says
  so in other words.
\<close>

definition index_corrupted :: "exn \<Rightarrow> bool" where
  "index_corrupted e =
     (case e of
        RuntimeError msg \<Rightarrow> str_contains (py ''Cannot open header file'') msg
      | _ \<Rightarrow> False)"

definition unreadable_service :: "(nat, nat) rag_service" where
  "unreadable_service =
     \<lparr>rag_embed_fn = (\<lambda>qs. [0]),
      rag_query = (\<lambda>n v k. Inl (RuntimeError (py ''Cannot open data_level0 file''))),
      rag_chat = (\<lambda>n sm um. Inr (py ''answer''))\<rparr>"

subsection \<open>One directory, listed in two orders\<close>

text \<open>
  A directory of two text files, each holding its own name, with the order in which the
  directory walk lists them as a parameter.
\<close>

definition b_txt :: file_path where
  "b_txt = \<lparr>fp_rel = py ''data/raw/b.txt'', fp_name = py ''b.txt''\<rparr>"

definition two_files_fs :: "file_path list \<Rightarrow> filesystem" where
  "two_files_fs listing =
     \<lparr>rglob = (\<lambda>ext. if ext = py ''*.txt'' then listing else []),
      read_txt = (\<lambda>f. Inr (fp_name f)), read_pdf = (\<lambda>f. Inr []),
      read_docx = (\<lambda>f. Inr [])\<rparr>"

section \<open>Properties\<close>

subsection \<open>Auxiliary facts\<close>

lemma range3: "[0..<3] = [0, 1, 2]"
  by (simp add: upt_rec)

lemma str_startswith_append: "str_startswith (sub @ b) sub"
  by (induction sub) simp_all

lemma str_contains_here: "str_contains sub (sub @ b)"
  by (cases "sub @ b") (auto simp: str_startswith_append dest: sym)

lemma str_contains_append: "str_contains sub (a @ sub @ b)"
proof (induction a)
  case Nil
  show ?case by (simp add: str_contains_here)
next
  case (Cons c a)
  then show ?case by simp
qed

subsection \<open>The generation loop\<close>

text \<open>The module never imports \<^verbatim>\<open>time\<close>, so the statement that sleeps raises.\<close>

lemma time_is_unbound: "''time'' \<notin> set module_names"
  by (simp add: module_names_def)

lemma time_sleep_raises:
  "time_sleep w s = (Inl (NameError (py ''name '' @ [0x27] @ py ''time'' @ [0x27] @ py '' is not defined'')), s)"
  unfolding time_sleep_def using time_is_unbound by simp

text \<open>
  Claim C1 says that a service answering 503 on every attempt is tried exactly three times,
  with a growing wait before each retry, and that a fatal error with advice follows. The
  code does not do this: as soon as the first attempt is answered 503, the warning is
  logged and \<^verbatim>\<open>time.sleep\<close> raises \<^verbatim>\<open>NameError\<close>, which leaves \<open>generate_answer\<close>.
  One request has been sent, nothing has been slept, and no second attempt is made.
\<close>

theorem overload_ends_in_name_error:
  assumes "retrieve rag question (TOP_K cfg) s = (Inr docs, s1)"
    and "rag_chat rag (chat_calls s1) (fst (build_prompt question docs))
           (snd (build_prompt question docs)) = Inl (ResponseError (Some 503) text)"
  shows "generate_answer cfg rag question s =
           (Inl (NameError (py ''name '' @ [0x27] @ py ''time'' @ [0x27] @ py '' is not defined'')),
            s1\<lparr>chat_calls := chat_calls s1 + 1,
               logged := logged s1 @ [(WARNING, py ''Ollama 503, retry 1/3 after 2s'')]\<rparr>)"
proof -
  obtain sm um where bp: "build_prompt question docs = (sm, um)"
    by (cases "build_prompt question docs")
  have d1: "str_int 1 = py ''1''" and d2: "str_int 2 = py ''2''"
    by (simp_all add: str_int_def digits.simps)
  from assms(2) bp have chat: "rag_chat rag (chat_calls s1) sm um = Inl (ResponseError (Some 503) text)"
    by simp
  show ?thesis
    unfolding generate_answer_def
    by (simp add: assms(1) bp range3 chat time_sleep_raises d1 d2 Let_def)
qed


text \<open>The run of C1 on \<open>overloaded_service\<close>, which answers 503 every time.\<close>

theorem overload_ends_in_name_error_witness:
  "retrieve overloaded_service (py ''Q'') (TOP_K default_config) io0 =
     (Inr [], io0\<lparr>query_calls := 1\<rparr>) \<and>
   rag_chat overloaded_service (chat_calls (io0\<lparr>query_calls := 1\<rparr>))
     (fst (build_prompt (py ''Q'') ([] :: nat passage list)))
     (snd (build_prompt (py ''Q'') ([] :: nat passage list))) =
     Inl (ResponseError (Some 503) (py ''overloaded'')) \<and>
   generate_answer default_config overloaded_service (py ''Q'') io0 =
     (Inl (NameError (py ''name '' @ [0x27] @ py ''time'' @ [0x27] @ py '' is not defined'')),
      \<lparr>query_calls = 1, chat_calls = 1, sleeps = [],
       logged = [(WARNING, py ''Ollama 503, retry 1/3 after 2s'')]\<rparr>)"
proof -
  have r: "retrieve overloaded_service (py ''Q'') (TOP_K default_config) io0 =
             (Inr [], io0\<lparr>query_calls := 1\<rparr>)"
    by (simp add: retrieve_def overloaded_service_def first_batch_def io0_def)
  have c: "rag_chat overloaded_service (chat_calls (io0\<lparr>query_calls := 1\<rparr>))
     (fst (build_prompt (py ''Q'') ([] :: nat passage list)))
     (snd (build_prompt (py ''Q'') ([] :: nat passage list))) =
     Inl (ResponseError (Some 503) (py ''overloaded''))"
    by (simp add: overloaded_service_def)
  show ?thesis
    using overload_ends_in_name_error [OF r c] r c by (simp add: io0_def)
qed

text \<open>
  Claim C9: when the first attempt is answered by an error of the service whose status is
  not 503, \<open>generate_answer\<close> raises at once. Exactly one request has been sent and
  nothing has been slept; the message of the error is \<^verbatim>\<open>Ollama error (status): text\<close>, so
  it holds the status the service reported and its text (stripped of surrounding
  whitespace, and replaced by \<^verbatim>\<open>service unavailable\<close> when that leaves nothing).
\<close>

theorem other_error_is_fatal_at_once:
  assumes "retrieve rag question (TOP_K cfg) s = (Inr docs, s1)"
    and "rag_chat rag (chat_calls s1) (fst (build_prompt question docs))
           (snd (build_prompt question docs)) = Inl (ResponseError status text)"
    and "status \<noteq> Some 503"
  shows "generate_answer cfg rag question s =
           (Inl (RuntimeError
                   (py ''Ollama error ('' @ status_str status @ py ''): '' @
                    (if str_strip text \<noteq> [] then str_strip text else py ''service unavailable''))),
            s1\<lparr>chat_calls := chat_calls s1 + 1\<rparr>) \<and>
         str_contains (status_str status)
           (py ''Ollama error ('' @ status_str status @ py ''): '' @
            (if str_strip text \<noteq> [] then str_strip text else py ''service unavailable'')) \<and>
         str_contains (str_strip text)
           (py ''Ollama error ('' @ status_str status @ py ''): '' @
            (if str_strip text \<noteq> [] then str_strip text else py ''service unavailable''))"
proof -
  obtain sm um where bp: "build_prompt question docs = (sm, um)"
    by (cases "build_prompt question docs")
  from assms(2) bp have chat: "rag_chat rag (chat_calls s1) sm um = Inl (ResponseError status text)"
    by simp
  have run: "generate_answer cfg rag question s =
           (Inl (RuntimeError
                   (py ''Ollama error ('' @ status_str status @ py ''): '' @
                    (if str_strip text \<noteq> [] then str_strip text else py ''service unavailable''))),
            s1\<lparr>chat_calls := chat_calls s1 + 1\<rparr>)"
    unfolding generate_answer_def
    using assms(3) by (simp add: assms(1) bp range3 chat Let_def)
  have st: "str_contains (status_str status) (a @ status_str status @ b)" for a b
    by (rule str_contains_append)
  have tx: "str_contains (str_strip text)
           (py ''Ollama error ('' @ status_str status @ py ''): '' @
            (if str_strip text \<noteq> [] then str_strip text else py ''service unavailable''))"
  proof (cases "str_strip text = []")
    case True
    then show ?thesis by simp
  next
    case False
    have "str_contains (str_strip text)
            ((py ''Ollama error ('' @ status_str status @ py ''): '') @ str_strip text @ [])"
      by (rule str_contains_append)
    with False show ?thesis by simp
  qed
  from run st [of "py ''Ollama error (''"] tx show ?thesis by simp
qed


text \<open>The run of C9 on \<open>failing_service\<close>, which answers 404.\<close>

theorem other_error_is_fatal_at_once_witness:
  "retrieve failing_service (py ''Q'') (TOP_K default_config) io0 =
     (Inr [], io0\<lparr>query_calls := 1\<rparr>) \<and>
   rag_chat failing_service (chat_calls (io0\<lparr>query_calls := 1\<rparr>))
     (fst (build_prompt (py ''Q'') ([] :: nat passage list)))
     (snd (build_prompt (py ''Q'') ([] :: nat passage list))) =
     Inl (ResponseError (Some 404) (py ''model not found '')) \<and>
   Some (404 :: int) \<noteq> Some 503 \<and>
   generate_answer default_config failing_service (py ''Q'') io0 =
     (Inl (RuntimeError (py ''Ollama error (404): model not found'')),
      \<lparr>query_calls = 1, chat_calls = 1, sleeps = [], logged = []\<rparr>)"
proof -
  have r: "retrieve failing_service (py ''Q'') (TOP_K default_config) io0 =
             (Inr [], io0\<lparr>query_calls := 1\<rparr>)"
    by (simp add: retrieve_def failing_service_def first_batch_def io0_def)
  have c: "rag_chat failing_service (chat_calls (io0\<lparr>query_calls := 1\<rparr>))
     (fst (build_prompt (py ''Q'') ([] :: nat passage list)))
     (snd (build_prompt (py ''Q'') ([] :: nat passage list))) =
     Inl (ResponseError (Some 404) (py ''model not found ''))"
    by (simp add: failing_service_def)
  have n: "Some (404 :: int) \<noteq> Some 503" by simp
  have d: "status_str (Some 404) = py ''404''"
    by (simp add: status_str_def str_int_def digits.simps)
  show ?thesis
    using other_error_is_fatal_at_once [OF r c n] r c
    by (simp add: io0_def d str_strip_def str_isspace_def)
qed

subsection \<open>Retrieval\<close>

text \<open>
  Claim C8, as amended. The claim speaks of any index that cannot be opened or read. The
  code tells the corrupted index by one test, \<open>index_corrupted\<close>: for such a failure of
  the query \<open>retrieve\<close> logs an error and raises a \<^verbatim>\<open>RuntimeError\<close> whose message tells the
  user to delete the folder \<^verbatim>\<open>chroma_db\<close> and to run \<^verbatim>\<open>python ingest.py --reset\<close>; any other
  failure of the query, a \<^verbatim>\<open>RuntimeError\<close> with another text or an exception of another
  class, is raised again as it is. In both cases the index has been queried once, and
  \<open>generate_answer\<close> passes the error on without a second query and without a request
  to the generation service.
\<close>

theorem query_failure_is_fatal:
  assumes "rag_embed_fn rag [question] = v # vs"
    and "rag_query rag (query_calls s) v (TOP_K cfg) = Inl e"
  shows "retrieve rag question (TOP_K cfg) s =
           (if index_corrupted e
            then (Inl (RuntimeError corrupted_message),
                  s\<lparr>query_calls := query_calls s + 1,
                   logged := logged s @
                     [(ERROR, py ''ChromaDB index corrupted. Please delete chroma_db folder and run ingest.py --reset'')]\<rparr>)
            else (Inl e, s\<lparr>query_calls := query_calls s + 1\<rparr>)) \<and>
         generate_answer cfg rag question s =
           (if index_corrupted e
            then (Inl (RuntimeError corrupted_message),
                  s\<lparr>query_calls := query_calls s + 1,
                   logged := logged s @
                     [(ERROR, py ''ChromaDB index corrupted. Please delete chroma_db folder and run ingest.py --reset'')]\<rparr>)
            else (Inl e, s\<lparr>query_calls := query_calls s + 1\<rparr>)) \<and>
         str_contains ([0x423, 0x434, 0x430, 0x43B, 0x438, 0x442, 0x435] @ py '' '' @
                       [0x43F, 0x430, 0x43F, 0x43A, 0x443] @ py '' '' @ [0x27] @ py ''chroma_db'' @ [0x27])
           corrupted_message \<and>
         str_contains (py ''python ingest.py --reset'') corrupted_message"
proof -
  have r: "retrieve rag question (TOP_K cfg) s =
           (if index_corrupted e
            then (Inl (RuntimeError corrupted_message),
                  s\<lparr>query_calls := query_calls s + 1,
                   logged := logged s @
                     [(ERROR, py ''ChromaDB index corrupted. Please delete chroma_db folder and run ingest.py --reset'')]\<rparr>)
            else (Inl e, s\<lparr>query_calls := query_calls s + 1\<rparr>))"
    using assms by (cases e) (simp_all add: retrieve_def index_corrupted_def Let_def)
  have g: "generate_answer cfg rag question s =
           (if index_corrupted e
            then (Inl (RuntimeError corrupted_message),
                  s\<lparr>query_calls := query_calls s + 1,
                   logged := logged s @
                     [(ERROR, py ''ChromaDB index corrupted. Please delete chroma_db folder and run ingest.py --reset'')]\<rparr>)
            else (Inl e, s\<lparr>query_calls := query_calls s + 1\<rparr>))"
    unfolding generate_answer_def by (simp add: r)
  have m1: "str_contains ([0x423, 0x434, 0x430, 0x43B, 0x438, 0x442, 0x435] @ py '' '' @
                       [0x43F, 0x430, 0x43F, 0x43A, 0x443] @ py '' '' @ [0x27] @ py ''chroma_db'' @ [0x27])
           corrupted_message"
    by (simp add: corrupted_message_def)
  have m2: "str_contains (py ''python ingest.py --reset'') corrupted_message"
    by (simp add: corrupted_message_def)
  from r g m1 m2 show ?thesis by simp
qed

text \<open>The run of C8 on \<open>corrupted_service\<close>, whose index fails the way the code tests for.\<close>

theorem query_failure_is_fatal_witness:
  "rag_embed_fn corrupted_service [py ''Q''] = 0 # [] \<and>
   rag_query corrupted_service (query_calls io0) 0 (TOP_K default_config) =
     Inl (RuntimeError (py ''Cannot open header file'')) \<and>
   index_corrupted (RuntimeError (py ''Cannot open header file'')) \<and>
   generate_answer default_config corrupted_service (py ''Q'') io0 =
     (Inl (RuntimeError corrupted_message),
      \<lparr>query_calls = 1, chat_calls = 0, sleeps = [],
       logged = [(ERROR, py ''ChromaDB index corrupted. Please delete chroma_db folder and run ingest.py --reset'')]\<rparr>)"
proof -
  have e: "rag_embed_fn corrupted_service [py ''Q''] = 0 # []"
    by (simp add: corrupted_service_def)
  have q: "rag_query corrupted_service (query_calls io0) 0 (TOP_K default_config) =
     Inl (RuntimeError (py ''Cannot open header file''))"
    by (simp add: corrupted_service_def)
  have i: "index_corrupted (RuntimeError (py ''Cannot open header file''))"
    by (simp add: index_corrupted_def)
  show ?thesis
    using query_failure_is_fatal [OF e q] e q i by (simp add: io0_def)
qed

text \<open>
  Claim C8 as stated fails on \<open>unreadable_service\<close>: the index cannot be read, and the
  error that reaches the caller is the raw one of the index, which names neither the
  folder nor the command; nothing is logged.
\<close>

theorem unreadable_index_raises_raw_error:
  "generate_answer default_config unreadable_service (py ''Q'') io0 =
     (Inl (RuntimeError (py ''Cannot open data_level0 file'')),
      \<lparr>query_calls = 1, chat_calls = 0, sleeps = [], logged = []\<rparr>) \<and>
   \<not> str_contains (py ''chroma_db'') (py ''Cannot open data_level0 file'') \<and>
   \<not> str_contains (py ''--reset'') (py ''Cannot open data_level0 file'')"
  by (simp add: generate_answer_def retrieve_def unreadable_service_def io0_def
        default_config_def Let_def)

subsection \<open>Loading documents\<close>

lemma first_error_append:
  "first_error fs (xs @ ys) =
     (case first_error fs xs of Some e \<Rightarrow> Some e | None \<Rightarrow> first_error fs ys)"
  by (induction xs) (simp_all split: sum.splits)

lemma kept_documents_append:
  "kept_documents fs (xs @ ys) = kept_documents fs xs @ kept_documents fs ys"
  by (induction xs) (simp_all split: sum.splits)

lemma scan_files_eq:
  "scan_files fs files docs =
     (case first_error fs files of
        Some e \<Rightarrow> Inl e
      | None \<Rightarrow> Inr (docs @ kept_documents fs files))"
  by (induction files arbitrary: docs) (auto split: sum.splits option.splits)

lemma scan_exts_eq:
  "scan_exts fs exts docs =
     (case first_error fs (concat (map (rglob fs) exts)) of
        Some e \<Rightarrow> Inl e
      | None \<Rightarrow> Inr (docs @ kept_documents fs (concat (map (rglob fs) exts))))"
proof (induction exts arbitrary: docs)
  case Nil
  show ?case by simp
next
  case (Cons ext exts)
  show ?case
    by (simp add: scan_files_eq Cons first_error_append kept_documents_append
          split: option.splits)
qed

text \<open>
  Claim C2, as amended. The claim says that an extractor failing on one file is logged
  and that the other files are still returned. The code has no handler around the
  extractors: \<open>load_documents\<close> raises the exception of the first path, in scan
  order, whose extractor raises, and returns nothing. Only when no extractor raises does it
  return documents: those of the paths whose text is not blank, in scan order.
\<close>

theorem load_documents_stops_at_first_failure:
  "load_documents fs =
     (case first_error fs (scanned fs) of
        Some e \<Rightarrow> Inl e
      | None \<Rightarrow> Inr (kept_documents fs (scanned fs)))"
  by (simp add: load_documents_def scanned_def scan_exts_eq split: option.splits)

text \<open>
  Claim C2 as stated fails on \<open>broken_pdf_fs\<close>: the text file is readable, the PDF is
  not, and the scan returns no document at all.
\<close>

theorem load_documents_aborts_on_corrupt_pdf:
  "extract_text broken_pdf_fs a_txt = Inr (py ''hello'') \<and>
   extract_text broken_pdf_fs b_pdf = Inl (OtherException (py ''EOF marker not found'')) \<and>
   load_documents broken_pdf_fs = Inl (OtherException (py ''EOF marker not found''))"
  by (simp add: load_documents_def patterns_def broken_pdf_fs_def a_txt_def b_pdf_def
        extract_text_def path_suffix_def str_lower_def str_strip_def str_isspace_def Let_def)

subsection \<open>Ingestion runs\<close>

lemma build_chunks_no_documents: "build_chunks cfg spl [] = ([], [])"
  by (simp add: build_chunks_def)

lemma load_empty_fs: "load_documents empty_fs = Inr []"
  by (simp add: load_documents_def patterns_def empty_fs_def)

text \<open>
  Claim C3, as amended. The claim says that a run with \<open>reset\<close> over an empty source
  directory empties the collection. The code returns before it touches the store: when
  no document is loaded, or no chunk is produced, \<open>main\<close> ends normally and the store
  is exactly what it was, whatever \<open>reset\<close> is.
\<close>

theorem main_without_chunks_leaves_store:
  assumes "load_documents fs = Inr docs"
    and "fst (build_chunks cfg spl docs) = []"
  shows "fst (main cfg fs spl em reset c) = Inr () \<and> store_after cfg fs spl em reset c = c"
proof (cases "docs = []")
  case True
  with assms(1) show ?thesis by (simp add: main_def store_after_def)
next
  case False
  obtain texts metas where bc: "build_chunks cfg spl docs = (texts, metas)"
    by (cases "build_chunks cfg spl docs")
  with assms(2) have "texts = []" by simp
  with False assms(1) bc show ?thesis by (simp add: main_def store_after_def)
qed

text \<open>The run of C3 with \<open>reset\<close> over the empty directory and the populated store.\<close>

theorem main_without_chunks_leaves_store_witness:
  "load_documents empty_fs = Inr [] \<and>
   fst (build_chunks default_config whole_splitter []) = [] \<and>
   fst (main default_config empty_fs whole_splitter example_embedder True populated_client) = Inr () \<and>
   store_after default_config empty_fs whole_splitter example_embedder True populated_client =
     populated_client"
proof -
  have b: "fst (build_chunks default_config whole_splitter []) = []"
    by (simp add: build_chunks_no_documents)
  show ?thesis
    using main_without_chunks_leaves_store [OF load_empty_fs b] load_empty_fs b by simp
qed

text \<open>
  Claim C3 as stated fails there: the collection held one entry before the run and
  holds one entry after it, not zero.
\<close>

theorem reset_on_empty_source_keeps_stale_entries:
  "stored_chunks default_config populated_client = 1 \<and>
   stored_chunks default_config
     (store_after default_config empty_fs whole_splitter example_embedder True populated_client) = 1"
  by (simp add: store_after_def main_def load_empty_fs stored_chunks_def populated_client_def
        default_config_def)

subsection \<open>ensure\_collection\<close>

lemma delete_absent:
  "collections c nm = None \<Longrightarrow> snd (delete_collection c nm) = c"
  by (simp add: delete_collection_def)

text \<open>
  Claim C10, as amended. When the collection does not exist, the failure of the delete
  step is swallowed: \<open>ensure_collection\<close> with \<open>reset\<close> does exactly what it does
  without, and so does \<open>upsert_chunks\<close>. It returns a fresh empty collection when
  \<^verbatim>\<open>get_or_create_collection\<close> succeeds on its first call or on its second, with the
  cosine metadata; when both calls raise, it raises the exception of the second, which no
  handler guards. So "never raises" holds for the delete step only.
\<close>

theorem ensure_collection_reset_on_missing:
  assumes "collections c (COLLECTION_NAME cfg) = None"
  shows "ensure_collection cfg c True = ensure_collection cfg c False \<and>
         upsert_chunks cfg em texts metas True c = upsert_chunks cfg em texts metas False c \<and>
         ensure_collection cfg c True =
           (case create_fault c None of
              None \<Rightarrow> (Inr (COLLECTION_NAME cfg), fresh_collection cfg c None)
            | Some e1 \<Rightarrow>
                (case create_fault c (Some cosine_metadata) of
                   None \<Rightarrow>
                     (Inr (COLLECTION_NAME cfg), fresh_collection cfg c (Some cosine_metadata))
                 | Some e2 \<Rightarrow> (Inl e2, c)))"
proof -
  have same: "ensure_collection cfg c True = ensure_collection cfg c False"
    using assms by (simp add: ensure_collection_def delete_absent)
  have ups: "upsert_chunks cfg em texts metas True c = upsert_chunks cfg em texts metas False c"
    by (simp add: upsert_chunks_def same)
  have val: "ensure_collection cfg c False =
           (case create_fault c None of
              None \<Rightarrow> (Inr (COLLECTION_NAME cfg), fresh_collection cfg c None)
            | Some e1 \<Rightarrow>
                (case create_fault c (Some cosine_metadata) of
                   None \<Rightarrow>
                     (Inr (COLLECTION_NAME cfg), fresh_collection cfg c (Some cosine_metadata))
                 | Some e2 \<Rightarrow> (Inl e2, c)))"
    using assms
    by (simp add: ensure_collection_def get_or_create_collection_def fresh_collection_def
          split: option.splits)
  from same ups val show ?thesis by simp
qed

text \<open>The call of C10 on a store with no collection.\<close>

theorem ensure_collection_reset_on_missing_witness:
  "collections fresh_client (COLLECTION_NAME default_config) = None \<and>
   ensure_collection default_config fresh_client True =
     (Inr (py ''edu_assistant''), fresh_collection default_config fresh_client None)"
proof -
  have a: "collections fresh_client (COLLECTION_NAME default_config) = None"
    by (simp add: fresh_client_def)
  have f: "create_fault fresh_client None = None"
    by (simp add: fresh_client_def)
  show ?thesis
    using ensure_collection_reset_on_missing [OF a, THEN conjunct2, THEN conjunct2] a f
    by (simp add: default_config_def)
qed

text \<open>
  Claim C10 as stated fails on \<open>broken_client\<close>: the collection does not exist, and
  \<open>ensure_collection\<close> with \<open>reset\<close> raises.
\<close>

theorem ensure_collection_raises_on_broken_store:
  "collections broken_client (COLLECTION_NAME default_config) = None \<and>
   ensure_collection default_config broken_client True =
     (Inl (OtherException (py ''disk I/O error'')), broken_client)"
  by (simp add: ensure_collection_def get_or_create_collection_def delete_collection_def
        broken_client_def default_config_def)

subsection \<open>Idempotent ingestion\<close>

text \<open>Upserting rows one by one is overriding the map with them, the last row of an id winning.\<close>

lemma fold_upsert:
  "fold (\<lambda>(i, e) m. m(i \<mapsto> e)) rows m = m ++ map_of (rev rows)"
proof (induction rows arbitrary: m)
  case Nil
  show ?case by simp
next
  case (Cons r rows)
  obtain i e where r: "r = (i, e)" by (cases r)
  have h: "m(i \<mapsto> e) ++ map_of (rev rows) = m ++ (map_of (rev rows @ [(i, e)]))"
    by (rule ext) (simp add: map_add_def split: option.splits)
  have "fold (\<lambda>(i, e) m. m(i \<mapsto> e)) (r # rows) m =
        fold (\<lambda>(i, e) m. m(i \<mapsto> e)) rows (m(i \<mapsto> e))"
    by (simp add: r)
  also have "\<dots> = m(i \<mapsto> e) ++ map_of (rev rows)"
    by (rule Cons.IH)
  also have "\<dots> = m ++ map_of (rev (r # rows))"
    using h by (simp add: r)
  finally show ?case .
qed

lemma fold_upsert_twice:
  "fold (\<lambda>(i, e) m. m(i \<mapsto> e)) rows (fold (\<lambda>(i, e) m. m(i \<mapsto> e)) rows m) =
   fold (\<lambda>(i, e) m. m(i \<mapsto> e)) rows m"
  unfolding fold_upsert by (rule ext) (simp add: map_add_def split: option.splits)

lemma upsert_chunks_twice:
  "snd (upsert_chunks cfg em texts metas False (snd (upsert_chunks cfg em texts metas False c))) =
   snd (upsert_chunks cfg em texts metas False c)"
  by (cases "collections c (COLLECTION_NAME cfg)")
     (auto simp: upsert_chunks_def ensure_collection_def get_or_create_collection_def
        collection_upsert_def fold_upsert_twice split: option.splits if_splits)

lemma store_after_cases:
  "store_after cfg fs spl em reset c =
     (case load_documents fs of
        Inl e \<Rightarrow> c
      | Inr docs \<Rightarrow>
          if fst (build_chunks cfg spl docs) = [] then c
          else snd (upsert_chunks cfg em (fst (build_chunks cfg spl docs))
                      (snd (build_chunks cfg spl docs)) reset c))"
  by (auto simp: store_after_def main_def build_chunks_no_documents
        split: sum.splits prod.splits)

text \<open>
  Claim C4, as amended. The claim has no condition on the order in which the scan lists
  the files, and the id of a chunk holds its ordinal in the batch. What holds is this:
  when the second run loads the same documents in the same order as the first, it
  leaves the store of the first run unchanged; in particular the number of stored chunks
  is the same, and no duplicate appears.
\<close>

theorem ingest_twice_same_order_same_store:
  assumes "load_documents fs' = load_documents fs"
  shows "store_after cfg fs' spl em False (store_after cfg fs spl em False c) =
           store_after cfg fs spl em False c \<and>
         stored_chunks cfg (store_after cfg fs' spl em False (store_after cfg fs spl em False c)) =
           stored_chunks cfg (store_after cfg fs spl em False c)"
proof -
  have "store_after cfg fs' spl em False (store_after cfg fs spl em False c) =
     store_after cfg fs spl em False c"
    by (simp add: store_after_cases assms upsert_chunks_twice split: sum.splits)
  then show ?thesis by simp
qed

lemma load_two_files:
  "load_documents (two_files_fs [a_txt, b_txt]) =
     Inr [(py ''a.txt'', [py ''source'' \<mapsto> PyStr (py ''data/raw/a.txt''),
                          py ''filename'' \<mapsto> PyStr (py ''a.txt'')]),
          (py ''b.txt'', [py ''source'' \<mapsto> PyStr (py ''data/raw/b.txt''),
                          py ''filename'' \<mapsto> PyStr (py ''b.txt'')])]"
  by (simp add: load_documents_def patterns_def two_files_fs_def a_txt_def b_txt_def
        extract_text_def path_suffix_def str_lower_def str_strip_def str_isspace_def Let_def)

lemma load_two_files_reversed:
  "load_documents (two_files_fs [b_txt, a_txt]) =
     Inr [(py ''b.txt'', [py ''source'' \<mapsto> PyStr (py ''data/raw/b.txt''),
                          py ''filename'' \<mapsto> PyStr (py ''b.txt'')]),
          (py ''a.txt'', [py ''source'' \<mapsto> PyStr (py ''data/raw/a.txt''),
                          py ''filename'' \<mapsto> PyStr (py ''a.txt'')])]"
  by (simp add: load_documents_def patterns_def two_files_fs_def a_txt_def b_txt_def
        extract_text_def path_suffix_def str_lower_def str_strip_def str_isspace_def Let_def)

lemma str_int_0: "str_int 0 = py ''0''"
  by (simp add: str_int_def digits.simps)

lemma str_int_1: "str_int 1 = py ''1''"
  by (simp add: str_int_def digits.simps)

lemma two_files_first_run:
  "stored_chunks default_config
     (store_after default_config (two_files_fs [a_txt, b_txt]) whole_splitter example_embedder
        False fresh_client) = 2"
  by (simp add: store_after_def main_def load_two_files build_chunks_def whole_splitter_def
        upsert_chunks_def ensure_collection_def get_or_create_collection_def
        collection_upsert_def upsert_rows_def chunk_ids_def raw_id_def dict_get_def
        str_int_0 str_int_1 example_embedder_def fresh_client_def default_config_def
        stored_chunks_def)

text \<open>
  C4 on the directory of two files, listed in the same order in both runs: no entry
  before, two after the first run, two after the second.
\<close>

theorem ingest_twice_same_order_same_store_witness:
  "load_documents (two_files_fs [a_txt, b_txt]) = load_documents (two_files_fs [a_txt, b_txt]) \<and>
   stored_chunks default_config fresh_client = 0 \<and>
   stored_chunks default_config
     (store_after default_config (two_files_fs [a_txt, b_txt]) whole_splitter example_embedder
        False fresh_client) = 2 \<and>
   stored_chunks default_config
     (store_after default_config (two_files_fs [a_txt, b_txt]) whole_splitter example_embedder
        False
        (store_after default_config (two_files_fs [a_txt, b_txt]) whole_splitter
           example_embedder False fresh_client)) = 2"
proof -
  have z: "stored_chunks default_config fresh_client = 0"
    by (simp add: stored_chunks_def fresh_client_def)
  from ingest_twice_same_order_same_store [OF refl, of default_config
      "two_files_fs [a_txt, b_txt]" whole_splitter example_embedder fresh_client]
    z two_files_first_run
  show ?thesis by simp
qed

text \<open>
  Claim C4 as stated fails on the same directory when the second run lists its two
  files in the other order: the files and their texts are unchanged, yet the store holds
  two entries after the first run and four after the second.
\<close>

theorem reordered_scan_duplicates_chunks:
  "stored_chunks default_config
     (store_after default_config (two_files_fs [a_txt, b_txt]) whole_splitter example_embedder
        False fresh_client) = 2 \<and>
   stored_chunks default_config
     (store_after default_config (two_files_fs [b_txt, a_txt]) whole_splitter example_embedder
        False
        (store_after default_config (two_files_fs [a_txt, b_txt]) whole_splitter
           example_embedder False fresh_client)) = 4"
  by (simp add: store_after_def main_def load_two_files load_two_files_reversed
        build_chunks_def whole_splitter_def
        upsert_chunks_def ensure_collection_def get_or_create_collection_def
        collection_upsert_def upsert_rows_def chunk_ids_def raw_id_def dict_get_def
        str_int_0 str_int_1 example_embedder_def fresh_client_def default_config_def
        stored_chunks_def)

subsection \<open>Chunk ids\<close>

lemma chunk_ids_from:
  "list_all2 (\<lambda>m m'. m (py ''source'') = m' (py ''source'') \<and> m (py ''chunk'') = m' (py ''chunk''))
     ms ms' \<Longrightarrow>
   map (\<lambda>(idx, meta). h (raw_id idx meta)) (enumerate n ms) =
   map (\<lambda>(idx, meta). h (raw_id idx meta)) (enumerate n ms')"
proof (induction ms ms' arbitrary: n rule: list_all2_induct)
  case Nil
  show ?case by simp
next
  case (Cons m ms m' ms')
  from Cons.hyps(1) have "raw_id n m = raw_id n m'"
    by (simp add: raw_id_def dict_get_def)
  with Cons.IH [of "Suc n"] show ?case by simp
qed

text \<open>
  Claim C5: the id of a chunk is a function of its source, its chunk index and its
  ordinal in the batch. Two runs whose metadata lists agree, position by position, on
  \<^verbatim>\<open>source\<close> and \<^verbatim>\<open>chunk\<close> assign the same id at every position, whatever else differs;
  two runs over identical input in the same order are such runs.
\<close>

theorem chunk_ids_depend_on_source_chunk_ordinal:
  assumes "list_all2 (\<lambda>m m'. m (py ''source'') = m' (py ''source'') \<and>
                              m (py ''chunk'') = m' (py ''chunk'')) ms ms'"
  shows "chunk_ids h ms = chunk_ids h ms'"
  unfolding chunk_ids_def using assms by (rule chunk_ids_from)

text \<open>C5 on two lists that differ in the file name: both give the id of \<^verbatim>\<open>data/raw/a.txt::0::0\<close>.\<close>

theorem chunk_ids_depend_on_source_chunk_ordinal_witness:
  "list_all2 (\<lambda>m m'. m (py ''source'') = m' (py ''source'') \<and>
                       m (py ''chunk'') = m' (py ''chunk'')) metas_a metas_b \<and>
   metas_a \<noteq> metas_b \<and>
   chunk_ids (\<lambda>s. s) metas_a = chunk_ids (\<lambda>s. s) metas_b \<and>
   chunk_ids (\<lambda>s. s) metas_b = [py ''data/raw/a.txt::0::0'']"
proof -
  have r: "list_all2 (\<lambda>m m'. m (py ''source'') = m' (py ''source'') \<and>
                       m (py ''chunk'') = m' (py ''chunk'')) metas_a metas_b"
    by (simp add: metas_a_def metas_b_def)
  have "hd metas_a (py ''filename'') \<noteq> hd metas_b (py ''filename'')"
    by (simp add: metas_a_def metas_b_def)
  then have d: "metas_a \<noteq> metas_b" by auto
  have v: "chunk_ids (\<lambda>s. s) metas_b = [py ''data/raw/a.txt::0::0'']"
    by (simp add: chunk_ids_def metas_b_def raw_id_def dict_get_def str_int_0)
  from chunk_ids_depend_on_source_chunk_ordinal [OF r, of "\<lambda>s. s"] r d v show ?thesis by simp
qed

subsection \<open>The prompt\<close>

text \<open>
  \<^verbatim>\<open>strip\<close> and \<^verbatim>\<open>dedent\<close> remove or add nothing but whitespace: \<^verbatim>\<open>strip\<close> drops whitespace
  at the two ends, and \<^verbatim>\<open>dedent\<close> empties lines of spaces and tabs and cuts a margin of
  spaces and tabs from the start of lines.
\<close>

lemma blank_isspace: "blank c \<Longrightarrow> str_isspace c"
  by (auto simp: blank_def str_isspace_def)

lemma without_whitespace_append [simp]:
  "without_whitespace (a @ b) = without_whitespace a @ without_whitespace b"
  by (simp add: without_whitespace_def)

lemma without_whitespace_Nil [simp]: "without_whitespace [] = []"
  by (simp add: without_whitespace_def)

lemma without_whitespace_blank: "list_all blank l \<Longrightarrow> without_whitespace l = []"
  by (induction l) (simp_all add: without_whitespace_def blank_isspace)

lemma filter_not_dropWhile: "filter (\<lambda>c. \<not> P c) (dropWhile P xs) = filter (\<lambda>c. \<not> P c) xs"
  by (induction xs) simp_all

lemma without_whitespace_strip: "without_whitespace (str_strip s) = without_whitespace s"
proof -
  have "filter (\<lambda>c. \<not> str_isspace c) (rev (dropWhile str_isspace (rev (dropWhile str_isspace s)))) =
        rev (filter (\<lambda>c. \<not> str_isspace c) (dropWhile str_isspace (rev (dropWhile str_isspace s))))"
    by (simp add: rev_filter)
  also have "\<dots> = rev (filter (\<lambda>c. \<not> str_isspace c) (rev (dropWhile str_isspace s)))"
    by (simp only: filter_not_dropWhile)
  also have "\<dots> = filter (\<lambda>c. \<not> str_isspace c) (dropWhile str_isspace s)"
    by (simp add: rev_filter)
  also have "\<dots> = filter (\<lambda>c. \<not> str_isspace c) s"
    by (simp only: filter_not_dropWhile)
  finally show ?thesis by (simp add: without_whitespace_def str_strip_def)
qed

lemma split_lines_not_Nil: "split_lines t \<noteq> []"
  by (induction t) (simp_all split: list.splits)

lemma str_join_Cons_head: "str_join sep ((c # l) # ls) = c # str_join sep (l # ls)"
  by (cases ls) simp_all

lemma str_join_split_lines: "str_join [10] (split_lines t) = t"
proof (induction t)
  case Nil
  show ?case by simp
next
  case (Cons c t)
  obtain l ls where s: "split_lines t = l # ls"
    using split_lines_not_Nil [of t] by (cases "split_lines t") auto
  show ?case
  proof (cases "c = 10")
    case True
    with Cons s show ?thesis by simp
  next
    case False
    with Cons s show ?thesis by (simp add: str_join_Cons_head)
  qed
qed

lemma without_whitespace_join:
  "without_whitespace sep = [] \<Longrightarrow>
   without_whitespace (str_join sep ls) = concat (map without_whitespace ls)"
  by (induction sep ls rule: str_join.induct) simp_all

lemma newline_is_space: "without_whitespace [10] = []"
  by (simp add: without_whitespace_def str_isspace_def)

lemma blank_line_is_space: "without_whitespace [10, 10] = []"
  by (simp add: without_whitespace_def str_isspace_def)

lemma without_whitespace_lines:
  "concat (map without_whitespace (split_lines t)) = without_whitespace t"
  using without_whitespace_join [OF newline_is_space, of "split_lines t"]
  by (simp add: str_join_split_lines)

lemma common_prefix_blank: "list_all blank a \<Longrightarrow> list_all blank (common_prefix a b)"
  by (induction a b rule: common_prefix.induct) auto

lemma margin_loop_blank:
  "list_all (list_all blank) indents \<Longrightarrow>
   (case m0 of None \<Rightarrow> True | Some m \<Rightarrow> list_all blank m) \<Longrightarrow>
   margin_loop m0 indents = Some margin \<Longrightarrow> list_all blank margin"
proof (induction m0 indents rule: margin_loop.induct)
  case (1 margin0)
  then show ?case by (simp split: option.splits)
next
  case (2 indent indents)
  then show ?case by simp
next
  case (3 margin0 indent indents)
  then show ?case by (simp add: common_prefix_blank)
qed

lemma takeWhile_blank: "list_all blank (takeWhile blank l)"
  by (induction l) simp_all

lemma indents_blank: "list_all (list_all blank) (map (takeWhile blank) ls)"
  by (induction ls) (simp_all add: takeWhile_blank)

lemma str_startswith_decompose: "str_startswith l m \<Longrightarrow> l = m @ drop (length m) l"
  by (induction l m rule: str_startswith.induct) simp_all

lemma without_whitespace_emptied:
  "without_whitespace (if whitespace_only l then [] else l) = without_whitespace l"
  by (simp add: whitespace_only_def without_whitespace_blank)

lemma without_whitespace_unindent:
  assumes "list_all blank margin"
  shows "without_whitespace (if str_startswith l margin then drop (length margin) l else l) =
         without_whitespace l"
proof (cases "str_startswith l margin")
  case True
  then have "l = margin @ drop (length margin) l" by (rule str_startswith_decompose)
  then have "without_whitespace l =
             without_whitespace margin @ without_whitespace (drop (length margin) l)"
    by (metis without_whitespace_append)
  with True assms show ?thesis by (simp add: without_whitespace_blank)
next
  case False
  then show ?thesis by simp
qed

lemma without_whitespace_dedent: "without_whitespace (dedent text) = without_whitespace text"
proof -
  let ?ls = "map (\<lambda>l. if whitespace_only l then [] else l) (split_lines text)"
  let ?indents = "map (takeWhile blank) (filter (\<lambda>l. l \<noteq> []) ?ls)"
  have plain: "without_whitespace (str_join [10] ?ls) = without_whitespace text"
  proof -
    have "without_whitespace (str_join [10] ?ls) = concat (map without_whitespace ?ls)"
      by (rule without_whitespace_join [OF newline_is_space])
    also have "\<dots> = concat (map without_whitespace (split_lines text))"
      by (simp add: comp_def without_whitespace_emptied)
    finally show ?thesis by (simp add: without_whitespace_lines)
  qed
  have cut: "without_whitespace
               (str_join [10]
                  (map (\<lambda>l. if str_startswith l margin then drop (length margin) l else l) ?ls)) =
             without_whitespace text"
    if "list_all blank margin" for margin
  proof -
    have "without_whitespace
               (str_join [10]
                  (map (\<lambda>l. if str_startswith l margin then drop (length margin) l else l) ?ls)) =
          concat (map without_whitespace
                  (map (\<lambda>l. if str_startswith l margin then drop (length margin) l else l) ?ls))"
      by (rule without_whitespace_join [OF newline_is_space])
    also have "\<dots> = concat (map without_whitespace ?ls)"
      using without_whitespace_unindent [OF that] by (simp add: comp_def)
    also have "\<dots> = concat (map without_whitespace (split_lines text))"
      by (simp add: comp_def without_whitespace_emptied)
    finally show ?thesis by (simp add: without_whitespace_lines)
  qed
  show ?thesis
  proof (cases "margin_loop None ?indents")
    case None
    then show ?thesis using plain by (simp add: dedent_def Let_def)
  next
    case (Some margin)
    have "list_all blank margin"
      by (rule margin_loop_blank [OF indents_blank _ Some]) simp
    then show ?thesis using plain cut Some by (simp add: dedent_def Let_def)
  qed
qed

lemma str_join_not_Nil:
  "parts \<noteq> [] \<Longrightarrow> list_all (\<lambda>p. p \<noteq> []) parts \<Longrightarrow> str_join sep parts \<noteq> []"
  by (induction sep parts rule: str_join.induct) simp_all

lemma context_parts_not_empty: "list_all (\<lambda>p. p \<noteq> []) (context_parts docs)"
  by (induction docs) (auto simp: context_parts_def)

lemma context_empty_iff: "str_join [10, 10] (context_parts docs) = [] \<longleftrightarrow> docs = []"
proof
  assume e: "str_join [10, 10] (context_parts docs) = []"
  show "docs = []"
  proof (rule ccontr)
    assume "docs \<noteq> []"
    then have "context_parts docs \<noteq> []" by (simp add: context_parts_def)
    from str_join_not_Nil [OF this context_parts_not_empty] e show False by simp
  qed
next
  assume "docs = []"
  then show "str_join [10, 10] (context_parts docs) = []" by (simp add: context_parts_def)
qed

lemma without_whitespace_indent: "without_whitespace indent12 = []"
  by (simp add: indent12_def without_whitespace_def str_isspace_def)

lemma without_whitespace_concat:
  "without_whitespace (concat ps) = concat (map without_whitespace ps)"
  by (induction ps) simp_all

lemma without_whitespace_newline: "without_whitespace (10 # s) = without_whitespace s"
  by (simp add: without_whitespace_def str_isspace_def)

text \<open>
  Claim C7, as amended. The claim puts the passages first and the question after them.
  The code puts the question first: for every question and list of passages the user
  message is, up to whitespace, the request label, the literal question, the context
  heading and then the context block, which is each passage's tag \<^verbatim>\<open>[source]\<close> followed by
  its text, in the order the passages were supplied, or the literal placeholder when the
  list is empty. Whitespace is left out of the comparison because \<^verbatim>\<open>dedent\<close> and \<^verbatim>\<open>strip\<close>
  run on the text after the question and the passages have been put in, and change theirs.
\<close>

theorem user_message_question_then_context:
  "without_whitespace (snd (build_prompt question docs)) =
   without_whitespace
     (request_label @ question @ context_heading @
      (if docs = [] then placeholder else concat (context_parts docs)))"
proof -
  let ?joined = "str_join [10, 10] (context_parts docs)"
  have ctx: "without_whitespace ?joined = without_whitespace (concat (context_parts docs))"
    by (simp add: without_whitespace_join [OF blank_line_is_space] without_whitespace_concat)
  have "without_whitespace (snd (build_prompt question docs)) =
        without_whitespace (user_template question ?joined)"
    by (simp add: build_prompt_def Let_def without_whitespace_strip without_whitespace_dedent)
  also have "\<dots> =
     without_whitespace request_label @ without_whitespace question @
     without_whitespace context_heading @
     without_whitespace (if ?joined \<noteq> [] then ?joined else placeholder)"
    by (simp add: user_template_def without_whitespace_indent without_whitespace_newline)
  also have "\<dots> =
     without_whitespace request_label @ without_whitespace question @
     without_whitespace context_heading @
     without_whitespace (if docs = [] then placeholder else concat (context_parts docs))"
    using ctx by (simp add: context_empty_iff)
  finally show ?thesis by simp
qed

text \<open>
  Claim C7 as stated fails for the question \<^verbatim>\<open>What?\<close> and one passage: the message is the
  label, the question, a blank line, the heading and the tagged passage; it ends with the
  passage and not with the question.
\<close>

theorem user_message_ends_with_passage:
  "snd (build_prompt (py ''What?'') one_passage) =
     request_label @ py ''What?'' @ [10, 10] @ context_heading @ [10] @
     py ''[data/raw/bio.txt] Mitochondria.'' \<and>
   str_endswith (snd (build_prompt (py ''What?'') one_passage))
     (py ''[data/raw/bio.txt] Mitochondria.'') \<and>
   \<not> str_endswith (snd (build_prompt (py ''What?'') one_passage)) (py ''What?'')"
  by (simp add: build_prompt_def one_passage_def context_parts_def dict_get_def
        user_template_def indent12_def request_label_def context_heading_def dedent_def
        whitespace_only_def blank_def str_strip_def str_isspace_def str_endswith_def Let_def)

subsection \<open>Further facts\<close>

text \<open>
  The user message for no passage and for two. With two passages the second tag starts
  its line, so \<^verbatim>\<open>dedent\<close> finds no common margin and the indentation of the template stays
  in front of the heading and of the first passage.
\<close>

lemma user_message_without_passages:
  "snd (build_prompt (py ''What?'') ([] :: nat passage list)) =
     request_label @ py ''What?'' @ [10, 10] @ context_heading @ [10] @ placeholder"
  by (simp add: build_prompt_def context_parts_def user_template_def indent12_def
        request_label_def context_heading_def placeholder_def dedent_def whitespace_only_def
        blank_def str_strip_def str_isspace_def Let_def)

lemma user_message_two_passages:
  "snd (build_prompt (py ''What?'') two_passages) =
     request_label @ py ''What?'' @ [10, 10] @
     indent12 @ context_heading @ [10] @
     indent12 @ py ''[data/raw/bio.txt] Mitochondria.'' @ [10, 10] @ py ''[unknown] Cells.''"
  by (simp add: build_prompt_def two_passages_def context_parts_def dict_get_def
        user_template_def indent12_def request_label_def context_heading_def dedent_def
        whitespace_only_def blank_def str_strip_def str_isspace_def Let_def)

text \<open>
  Whatever the index answers, \<open>retrieve\<close> queries it once, and sends nothing to the
  generation service.
\<close>

lemma retrieve_queries_once:
  assumes "rag_embed_fn rag [question] = v # vs"
  shows "query_calls (snd (retrieve rag question top_k s)) = query_calls s + 1 \<and>
         chat_calls (snd (retrieve rag question top_k s)) = chat_calls s \<and>
         sleeps (snd (retrieve rag question top_k s)) = sleeps s"
  using assms
  by (auto simp: retrieve_def Let_def split: sum.splits exn.splits)

text \<open>
  The ids of the id loop are the ids the run stores under: after a successful
  \<open>upsert_chunks\<close> whose texts, metadata and embeddings are equally many, the collection
  holds an entry under each of them.
\<close>

lemma dom_fold_upsert:
  "dom (fold (\<lambda>(i, e) m. m(i \<mapsto> e)) rows m) = dom m \<union> fst ` set rows"
  by (auto simp: fold_upsert dom_map_of_conv_image_fst)

lemma get_or_create_collection_handle:
  assumes "get_or_create_collection c nm md = (Inr h, c')"
  shows "h = nm \<and> collections c' nm \<noteq> None"
  using assms
  by (auto simp: get_or_create_collection_def split: option.splits)

lemma ensure_collection_handle:
  assumes "ensure_collection cfg c reset = (Inr h, c')"
  shows "h = COLLECTION_NAME cfg \<and> collections c' (COLLECTION_NAME cfg) \<noteq> None"
proof -
  let ?c1 = "if reset then snd (delete_collection c (COLLECTION_NAME cfg)) else c"
  obtain r c2 where g: "get_or_create_collection ?c1 (COLLECTION_NAME cfg) None = (r, c2)"
    by (cases "get_or_create_collection ?c1 (COLLECTION_NAME cfg) None")
  show ?thesis
  proof (cases r)
    case (Inr h')
    with g assms have "get_or_create_collection ?c1 (COLLECTION_NAME cfg) None = (Inr h, c')"
      by (simp add: ensure_collection_def Let_def)
    then show ?thesis by (rule get_or_create_collection_handle)
  next
    case (Inl e)
    with g assms have
      "get_or_create_collection c2 (COLLECTION_NAME cfg) (Some cosine_metadata) = (Inr h, c')"
      by (simp add: ensure_collection_def Let_def)
    then show ?thesis by (rule get_or_create_collection_handle)
  qed
qed

lemma upsert_rows_ids:
  assumes "length documents = length ids" and "length metadatas = length ids"
    and "length embeddings = length ids"
  shows "map fst (upsert_rows ids documents metadatas embeddings) = ids"
proof -
  have "map fst (upsert_rows ids documents metadatas embeddings) =
        map fst (zip ids (zip documents (zip metadatas embeddings)))"
    by (simp add: upsert_rows_def case_prod_beta comp_def)
  also have "\<dots> = ids"
    using assms by (simp add: map_fst_zip)
  finally show ?thesis .
qed

lemma upsert_chunks_stores_under_chunk_ids:
  assumes "upsert_chunks cfg em texts metas reset c = (Inr u, c')"
    and "length texts = length metas" and "length (embed_fn em texts) = length metas"
  shows "\<exists>col. collections c' (COLLECTION_NAME cfg) = Some col \<and>
               set (chunk_ids (md5_hex em) metas) \<subseteq> dom (entries col)"
proof -
  obtain r c1 where e: "ensure_collection cfg c reset = (r, c1)"
    by (cases "ensure_collection cfg c reset")
  with assms(1) obtain h where r: "r = Inr h"
    by (cases r) (simp_all add: upsert_chunks_def)
  from e r have h: "h = COLLECTION_NAME cfg"
    and ex: "collections c1 (COLLECTION_NAME cfg) \<noteq> None"
    using ensure_collection_handle [of cfg c reset h c1] by simp_all
  have n: "length (chunk_ids (md5_hex em) metas) = length metas"
    by (simp add: chunk_ids_def)
  from assms(1) e r h ex obtain col where
    col: "collections c1 (COLLECTION_NAME cfg) = Some col" and
    c': "c' = c1\<lparr>collections := (collections c1)(COLLECTION_NAME cfg \<mapsto>
               col\<lparr>entries :=
                     fold (\<lambda>(i, e) m. m(i \<mapsto> e))
                       (upsert_rows (chunk_ids (md5_hex em) metas) texts metas (embed_fn em texts))
                       (entries col)\<rparr>)\<rparr>"
    by (auto simp: upsert_chunks_def collection_upsert_def split: option.splits if_splits)
  have "set (chunk_ids (md5_hex em) metas) =
        fst ` set (upsert_rows (chunk_ids (md5_hex em) metas) texts metas (embed_fn em texts))"
    using upsert_rows_ids [of texts "chunk_ids (md5_hex em) metas" metas "embed_fn em texts"]
      assms(2,3) n
    by (metis set_map)
  with c' show ?thesis by (simp add: dom_fold_upsert)
qed

end
